theory Spec2Isabelle
  imports Main "HOL-Library.Word"
begin

unbundle bit_operations_syntax

section \<open>Data model of the \<open>wwvb\<close> class (wwvb.h)\<close>

type_synonym u8 = "8 word"
type_synonym u16 = "16 word"

text \<open>
  The private members of \<open>class wwvb\<close>. A C array is a map from index to cell; the
  six subframe arrays have ten \<open>boolean\<close> cells each (Arduino's \<open>boolean\<close> is
  \<open>bool\<close>: storing an integer stores whether it is non-zero), \<open>pulse_width\<close> has
  three \<open>uint16_t\<close> cells. \<open>OCR1\<close> is the output-compare register the class writes
  (\<open>OCR1A\<close> or \<open>OCR1B\<close>, chosen by a macro): its value is the PWM duty. A member
  the source names with a trailing underscore (\<open>mins_\<close>) has the suffix \<open>_st\<close> here.
\<close>

record wwvb =
  MINS :: "nat \<Rightarrow> bool"
  HOUR :: "nat \<Rightarrow> bool"
  DOTY :: "nat \<Rightarrow> bool"
  DUT1 :: "nat \<Rightarrow> bool"
  YEAR :: "nat \<Rightarrow> bool"
  MISC :: "nat \<Rightarrow> bool"
  t_ss :: u8
  t_mm :: u8
  t_hh :: u8
  t_DD :: u8
  t_MM :: u8
  t_YY :: u8
  mins_st :: u8
  hour_st :: u8
  DD_st :: u8
  MM_st :: u8
  YY_st :: u8
  doty_st :: u16
  is_leap_year_st :: bool
  daylight_savings_st :: u8
  WWVB_LOW :: u16
  WWVB_HIGH :: u16
  WWVB_MARKER :: u16
  WWVB_ENDOFBIT :: u16
  pulse_width :: "nat \<Rightarrow> u16"
  WWVB_LOWTIME :: u16
  PWM_LOW :: u8
  PWM_HIGH :: u8
  isr_count :: u16
  frame_index :: u8
  subframe_index :: u8
  is_active_st :: bool
  OCR1 :: u8

text \<open>
  The build configuration the preprocessor branches of \<open>setup\<close> test: whether the chip is
  an ATtiny85/45, and the CPU clock \<open>F_CPU\<close> in Hz.
\<close>

record config =
  attiny :: bool
  F_CPU :: nat

text \<open>
  The functions of \<open>TimeDateTools.h\<close> that the class calls. That header is not part of
  the source under verification, so the model takes them as a parameter.
  \<open>addTimezone\<close> updates seconds, minutes, hours, day, month and year in place, given the
  three offsets of the call in the order the call passes them.
\<close>

type_synonym hms_date = "u8 \<times> u8 \<times> u8 \<times> u8 \<times> u8 \<times> u8"

record calendar =
  is_leap_year :: "int \<Rightarrow> bool"
  to_day_of_the_year :: "u8 \<Rightarrow> u8 \<Rightarrow> bool \<Rightarrow> u16"
  addTimezone :: "hms_date \<Rightarrow> u8 \<Rightarrow> u8 \<Rightarrow> u8 \<Rightarrow> hms_date"

text \<open>An array initialiser: the cells listed, in order.\<close>

definition cells :: "bool list \<Rightarrow> nat \<Rightarrow> bool" where
  "cells xs = (\<lambda>i. i < length xs \<and> xs ! i)"

text \<open>
  Construction of the object: the default member initialisers. Members without an
  initialiser keep whatever the storage \<open>g\<close> held; \<open>pulse_width\<close> is initialised from the
  three threshold members, which have no value of their own yet.
\<close>

definition construct :: "wwvb \<Rightarrow> wwvb" where
  "construct g = g\<lparr>
     MINS := cells [True, True, True, True, False, True, True, True, True, True],
     HOUR := cells [False, False, True, True, False, True, True, True, True, True],
     DOTY := cells [False, False, True, True, False, True, True, True, True, True],
     DUT1 := cells [True, True, True, True, False, False, False, True, False, True],
     YEAR := cells [True, True, True, True, False, True, True, True, True, True],
     MISC := cells [True, True, True, True, False, True, True, True, True, True],
     is_leap_year_st := False,
     daylight_savings_st := 0,
     pulse_width := (\<lambda>i. if i = 0 then WWVB_LOW g else if i = 1 then WWVB_HIGH g
                          else WWVB_MARKER g),
     isr_count := 0,
     is_active_st := False\<rparr>"

section \<open>The frame encoder\<close>

definition set_mins :: "u8 \<Rightarrow> wwvb \<Rightarrow> wwvb" where
  "set_mins v s =
     (if mins_st s \<noteq> v then
        let s = s\<lparr>mins_st := v\<rparr>;
            (v, s) = (if v \<ge> 40 then (v - 40, s\<lparr>MINS := (MINS s)(1 := True)\<rparr>)
                      else (v, s\<lparr>MINS := (MINS s)(1 := False)\<rparr>));
            (v, s) = (if v \<ge> 20 then (v - 20, s\<lparr>MINS := (MINS s)(2 := True)\<rparr>)
                      else (v, s\<lparr>MINS := (MINS s)(2 := False)\<rparr>));
            (v, s) = (if v \<ge> 10 then (v - 10, s\<lparr>MINS := (MINS s)(3 := True)\<rparr>)
                      else (v, s\<lparr>MINS := (MINS s)(3 := False)\<rparr>));
            (v, s) = (if v \<ge> 8 then (v - 8, s\<lparr>MINS := (MINS s)(5 := True)\<rparr>)
                      else (v, s\<lparr>MINS := (MINS s)(5 := False)\<rparr>));
            (v, s) = (if v \<ge> 4 then (v - 4, s\<lparr>MINS := (MINS s)(6 := True)\<rparr>)
                      else (v, s\<lparr>MINS := (MINS s)(6 := False)\<rparr>));
            (v, s) = (if v \<ge> 2 then (v - 2, s\<lparr>MINS := (MINS s)(7 := True)\<rparr>)
                      else (v, s\<lparr>MINS := (MINS s)(7 := False)\<rparr>))
        in s\<lparr>MINS := (MINS s)(8 := (v \<noteq> 0))\<rparr>
      else s)"

definition set_hour :: "u8 \<Rightarrow> wwvb \<Rightarrow> wwvb" where
  "set_hour v s =
     (if hour_st s \<noteq> v then
        let s = s\<lparr>hour_st := v\<rparr>;
            (v, s) = (if v \<ge> 20 then (v - 20, s\<lparr>HOUR := (HOUR s)(2 := True)\<rparr>)
                      else (v, s\<lparr>HOUR := (HOUR s)(2 := False)\<rparr>));
            (v, s) = (if v \<ge> 10 then (v - 10, s\<lparr>HOUR := (HOUR s)(3 := True)\<rparr>)
                      else (v, s\<lparr>HOUR := (HOUR s)(3 := False)\<rparr>));
            (v, s) = (if v \<ge> 8 then (v - 8, s\<lparr>HOUR := (HOUR s)(5 := True)\<rparr>)
                      else (v, s\<lparr>HOUR := (HOUR s)(5 := False)\<rparr>));
            (v, s) = (if v \<ge> 4 then (v - 4, s\<lparr>HOUR := (HOUR s)(6 := True)\<rparr>)
                      else (v, s\<lparr>HOUR := (HOUR s)(6 := False)\<rparr>));
            (v, s) = (if v \<ge> 2 then (v - 2, s\<lparr>HOUR := (HOUR s)(7 := True)\<rparr>)
                      else (v, s\<lparr>HOUR := (HOUR s)(7 := False)\<rparr>))
        in s\<lparr>HOUR := (HOUR s)(8 := (v \<noteq> 0))\<rparr>
      else s)"

definition set_doty :: "u16 \<Rightarrow> wwvb \<Rightarrow> wwvb" where
  "set_doty v s =
     (if doty_st s \<noteq> v then
        let s = s\<lparr>doty_st := v\<rparr>;
            (v, s) = (if v \<ge> 200 then (v - 200, s\<lparr>DOTY := (DOTY s)(2 := True)\<rparr>)
                      else (v, s\<lparr>DOTY := (DOTY s)(2 := False)\<rparr>));
            (v, s) = (if v \<ge> 100 then (v - 100, s\<lparr>DOTY := (DOTY s)(3 := True)\<rparr>)
                      else (v, s\<lparr>DOTY := (DOTY s)(3 := False)\<rparr>));
            (v, s) = (if v \<ge> 80 then (v - 80, s\<lparr>DOTY := (DOTY s)(5 := True)\<rparr>)
                      else (v, s\<lparr>DOTY := (DOTY s)(5 := False)\<rparr>));
            (v, s) = (if v \<ge> 40 then (v - 40, s\<lparr>DOTY := (DOTY s)(6 := True)\<rparr>)
                      else (v, s\<lparr>DOTY := (DOTY s)(6 := False)\<rparr>));
            (v, s) = (if v \<ge> 20 then (v - 20, s\<lparr>DOTY := (DOTY s)(7 := True)\<rparr>)
                      else (v, s\<lparr>DOTY := (DOTY s)(7 := False)\<rparr>));
            (v, s) = (if v \<ge> 10 then (v - 10, s\<lparr>DOTY := (DOTY s)(8 := True)\<rparr>)
                      else (v, s\<lparr>DOTY := (DOTY s)(8 := False)\<rparr>));
            (v, s) = (if v \<ge> 8 then (v - 8, s\<lparr>DUT1 := (DUT1 s)(0 := True)\<rparr>)
                      else (v, s\<lparr>DUT1 := (DUT1 s)(0 := False)\<rparr>));
            (v, s) = (if v \<ge> 4 then (v - 4, s\<lparr>DUT1 := (DUT1 s)(1 := True)\<rparr>)
                      else (v, s\<lparr>DUT1 := (DUT1 s)(1 := False)\<rparr>));
            (v, s) = (if v \<ge> 2 then (v - 2, s\<lparr>DUT1 := (DUT1 s)(2 := True)\<rparr>)
                      else (v, s\<lparr>DUT1 := (DUT1 s)(2 := False)\<rparr>))
        in s\<lparr>DUT1 := (DUT1 s)(3 := (v \<noteq> 0))\<rparr>
      else s)"

definition set_dut1 :: "wwvb \<Rightarrow> wwvb" where
  "set_dut1 s =
     (let s = s\<lparr>DUT1 := (DUT1 s)(7 := True)\<rparr>;
          s = s\<lparr>YEAR := (YEAR s)(0 := False)\<rparr>;
          s = s\<lparr>YEAR := (YEAR s)(1 := False)\<rparr>;
          s = s\<lparr>YEAR := (YEAR s)(2 := False)\<rparr>
      in s\<lparr>YEAR := (YEAR s)(3 := False)\<rparr>)"

definition set_day :: "u8 \<Rightarrow> wwvb \<Rightarrow> wwvb" where
  "set_day v s = (if DD_st s \<noteq> v then s\<lparr>DD_st := v\<rparr> else s)"

definition set_month :: "u8 \<Rightarrow> wwvb \<Rightarrow> wwvb" where
  "set_month v s = (if MM_st s \<noteq> v then s\<lparr>MM_st := v\<rparr> else s)"

definition set_year :: "u8 \<Rightarrow> wwvb \<Rightarrow> wwvb" where
  "set_year v s =
     (if YY_st s \<noteq> v then
        let s = s\<lparr>YY_st := v\<rparr>;
            (v, s) = (if v \<ge> 80 then (v - 80, s\<lparr>YEAR := (YEAR s)(5 := True)\<rparr>)
                      else (v, s\<lparr>YEAR := (YEAR s)(5 := False)\<rparr>));
            (v, s) = (if v \<ge> 40 then (v - 40, s\<lparr>YEAR := (YEAR s)(6 := True)\<rparr>)
                      else (v, s\<lparr>YEAR := (YEAR s)(6 := False)\<rparr>));
            (v, s) = (if v \<ge> 20 then (v - 20, s\<lparr>YEAR := (YEAR s)(7 := True)\<rparr>)
                      else (v, s\<lparr>YEAR := (YEAR s)(7 := False)\<rparr>));
            (v, s) = (if v \<ge> 10 then (v - 10, s\<lparr>YEAR := (YEAR s)(8 := True)\<rparr>)
                      else (v, s\<lparr>YEAR := (YEAR s)(8 := False)\<rparr>));
            (v, s) = (if v \<ge> 8 then (v - 8, s\<lparr>MISC := (MISC s)(0 := True)\<rparr>)
                      else (v, s\<lparr>MISC := (MISC s)(0 := False)\<rparr>));
            (v, s) = (if v \<ge> 4 then (v - 4, s\<lparr>MISC := (MISC s)(1 := True)\<rparr>)
                      else (v, s\<lparr>MISC := (MISC s)(1 := False)\<rparr>));
            (v, s) = (if v \<ge> 2 then (v - 2, s\<lparr>MISC := (MISC s)(2 := True)\<rparr>)
                      else (v, s\<lparr>MISC := (MISC s)(2 := False)\<rparr>))
        in s\<lparr>MISC := (MISC s)(3 := (v \<noteq> 0))\<rparr>
      else s)"

definition set_misc :: "bool \<Rightarrow> u8 \<Rightarrow> wwvb \<Rightarrow> wwvb" where
  "set_misc ly dst s =
     (let s = (if is_leap_year_st s \<noteq> ly
               then s\<lparr>is_leap_year_st := ly, MISC := (MISC s)(5 := ly)\<rparr> else s)
      in if daylight_savings_st s \<noteq> dst
         then s\<lparr>daylight_savings_st := dst,
                MISC := (MISC s)(7 := ((drop_bit 1 dst) AND 1 \<noteq> 0),
                                 8 := (dst AND 1 \<noteq> 0))\<rparr>
         else s)"

text \<open>
  The private \<open>set_time(_daylight_savings)\<close>: it encodes the time held in the temporaries
  \<open>t_mm\<close> ... \<open>t_YY\<close>. The year passed to \<open>is_leap_year\<close> is computed in \<open>int\<close>.
\<close>

definition set_time_priv :: "calendar \<Rightarrow> u8 \<Rightarrow> wwvb \<Rightarrow> wwvb" where
  "set_time_priv cal dst s =
     (let ly = is_leap_year cal (2000 + uint (t_YY s));
          d = to_day_of_the_year cal (t_DD s) (t_MM s) ly;
          s = set_mins (t_mm s) s;
          s = set_hour (t_hh s) s;
          s = set_day (t_DD s) s;
          s = set_month (t_MM s) s;
          s = set_doty d s;
          s = set_year (t_YY s) s
      in set_misc ly dst s)"

definition get_time :: "wwvb \<Rightarrow> u8 \<times> u8 \<times> u8 \<times> u8 \<times> u8" where
  "get_time s = (mins_st s, hour_st s, DD_st s, MM_st s, YY_st s)"

text \<open>Writing the six values \<open>addTimezone\<close> returns back into the temporaries.\<close>

definition store_temps :: "hms_date \<Rightarrow> wwvb \<Rightarrow> wwvb" where
  "store_temps r s =
     (case r of (ss, mm, hh, dd, mo, yy) \<Rightarrow>
        s\<lparr>t_ss := ss, t_mm := mm, t_hh := hh, t_DD := dd, t_MM := mo, t_YY := yy\<rparr>)"

text \<open>The public \<open>set_time(_mins, _hour, _DD, _MM, _YY, _daylight_savings)\<close>.\<close>

definition set_time :: "calendar \<Rightarrow> u8 \<Rightarrow> u8 \<Rightarrow> u8 \<Rightarrow> u8 \<Rightarrow> u8 \<Rightarrow> u8 \<Rightarrow> wwvb \<Rightarrow> wwvb" where
  "set_time cal mi hr dd mo yy dst s =
     (let s = s\<lparr>t_mm := mi, t_hh := hr, t_DD := dd, t_MM := mo, t_YY := yy\<rparr>;
          s = store_temps
                (addTimezone cal (t_ss s, t_mm s, t_hh s, t_DD s, t_MM s, t_YY s) 0 1 0) s
      in set_time_priv cal dst s)"

text \<open>
  \<open>add_time(_mins, _hour)\<close>: the call passes \<open>0, _mins, _hour\<close> as the three offsets, and
  the private \<open>set_time\<close> runs with its default argument 0.
\<close>

definition add_time :: "calendar \<Rightarrow> u8 \<Rightarrow> u8 \<Rightarrow> wwvb \<Rightarrow> wwvb" where
  "add_time cal mi hr s =
     (let s = (case get_time s of (m, h, d, mo, y) \<Rightarrow>
                 s\<lparr>t_mm := m, t_hh := h, t_DD := d, t_MM := mo, t_YY := y\<rparr>);
          s = store_temps
                (addTimezone cal (t_ss s, t_mm s, t_hh s, t_DD s, t_MM s, t_YY s) 0 mi hr) s
      in set_time_priv cal 0 s)"

section \<open>The frame sequencer and the bit modulator\<close>

definition is_marker :: "u8 \<Rightarrow> bool" where
  "is_marker f = (f = 0 \<or> f = 9 \<or> f = 19 \<or> f = 29 \<or> f = 39 \<or> f = 49 \<or> f = 59)"

text \<open>Indexing \<open>pulse_width\<close> with a \<open>boolean\<close>: the value is promoted to 0 or 1.\<close>

definition bit_index :: "bool \<Rightarrow> nat" where
  "bit_index b = (if b then 1 else 0)"

definition set_lowTime :: "wwvb \<Rightarrow> wwvb" where
  "set_lowTime s =
     (if is_marker (frame_index s) then s\<lparr>WWVB_LOWTIME := WWVB_MARKER s\<rparr>
      else
        let s = s\<lparr>subframe_index := frame_index s mod 10\<rparr>;
            i = unat (subframe_index s)
        in if frame_index s < 10 then s\<lparr>WWVB_LOWTIME := pulse_width s (bit_index (MINS s i))\<rparr>
           else if frame_index s < 20 then s\<lparr>WWVB_LOWTIME := pulse_width s (bit_index (HOUR s i))\<rparr>
           else if frame_index s < 30 then s\<lparr>WWVB_LOWTIME := pulse_width s (bit_index (DOTY s i))\<rparr>
           else if frame_index s < 40 then s\<lparr>WWVB_LOWTIME := pulse_width s (bit_index (DUT1 s i))\<rparr>
           else if frame_index s < 50 then s\<lparr>WWVB_LOWTIME := pulse_width s (bit_index (YEAR s i))\<rparr>
           else if frame_index s < 60 then s\<lparr>WWVB_LOWTIME := pulse_width s (bit_index (MISC s i))\<rparr>
           else s)"

definition wwvb_setup :: "config \<Rightarrow> wwvb \<Rightarrow> wwvb" where
  "wwvb_setup cfg s =
     (let s = (if attiny cfg \<or> F_CPU cfg = 16000000
               then s\<lparr>WWVB_LOW := 12121, WWVB_HIGH := 30303,
                      WWVB_MARKER := 48485, WWVB_ENDOFBIT := 60606\<rparr>
               else s\<lparr>WWVB_LOW := 12030, WWVB_HIGH := 30075,
                      WWVB_MARKER := 48120, WWVB_ENDOFBIT := 60150\<rparr>);
          s = s\<lparr>WWVB_LOWTIME := WWVB_LOW s\<rparr>;
          s = s\<lparr>pulse_width := (pulse_width s)(0 := WWVB_LOW s)\<rparr>;
          s = s\<lparr>pulse_width := (pulse_width s)(1 := WWVB_HIGH s)\<rparr>;
          s = s\<lparr>pulse_width := (pulse_width s)(1 := WWVB_MARKER s)\<rparr>;
          s = (if attiny cfg then s\<lparr>PWM_HIGH := 66, PWM_LOW := 6\<rparr>
               else if F_CPU cfg = 16000000 then s\<lparr>PWM_HIGH := 65, PWM_LOW := 6\<rparr>
               else if F_CPU cfg = 8000000 then s\<lparr>PWM_HIGH := 33, PWM_LOW := 3\<rparr>
               else s);
          s = s\<lparr>OCR1 := PWM_LOW s\<rparr>;
          s = s\<lparr>frame_index := 0, subframe_index := 0, isr_count := 0\<rparr>
      in set_dut1 s)"

text \<open>
  The branch of \<open>interrupt_routine\<close> taken when a bit-second is complete: duty low, next
  frame index (with the minute rollover at 60), next symbol, counter reset.
\<close>

definition end_of_bit :: "calendar \<Rightarrow> wwvb \<Rightarrow> wwvb" where
  "end_of_bit cal s =
     (let s = s\<lparr>OCR1 := PWM_LOW s\<rparr>;
          s = s\<lparr>frame_index := frame_index s + 1\<rparr>;
          s = (if frame_index s = 60 then (add_time cal 1 0 s)\<lparr>frame_index := 0\<rparr> else s);
          s = s\<lparr>subframe_index := frame_index s mod 10\<rparr>;
          s = set_lowTime s
      in s\<lparr>isr_count := 0\<rparr>)"

definition interrupt_routine :: "calendar \<Rightarrow> wwvb \<Rightarrow> wwvb" where
  "interrupt_routine cal s =
     (let s = s\<lparr>isr_count := isr_count s + 1\<rparr>
      in if isr_count s = WWVB_LOWTIME s then s\<lparr>OCR1 := PWM_HIGH s\<rparr>
         else if isr_count s \<ge> WWVB_ENDOFBIT s then end_of_bit cal s
         else s)"

definition resume :: "wwvb \<Rightarrow> wwvb" where
  "resume s = s\<lparr>is_active_st := True\<rparr>"

definition stop :: "wwvb \<Rightarrow> wwvb" where
  "stop s = s\<lparr>is_active_st := False\<rparr>"

definition start :: "wwvb \<Rightarrow> wwvb" where
  "start s =
     (let s = s\<lparr>frame_index := 0, subframe_index := 0\<rparr>;
          s = set_lowTime s;
          s = s\<lparr>OCR1 := PWM_LOW s\<rparr>
      in resume s)"

definition set_low :: "wwvb \<Rightarrow> wwvb" where
  "set_low s = s\<lparr>OCR1 := PWM_LOW s\<rparr>"

definition set_high :: "wwvb \<Rightarrow> wwvb" where
  "set_high s = s\<lparr>OCR1 := PWM_HIGH s\<rparr>"

section \<open>Reachable states\<close>

text \<open>
  The states the object can be in: constructed over any storage, set up, and then driven
  by any sequence of calls of the public member functions and of the interrupt routine.
\<close>

inductive reachable :: "calendar \<Rightarrow> config \<Rightarrow> wwvb \<Rightarrow> bool" for cal :: calendar and cfg :: config where
  r_setup: "reachable cal cfg (wwvb_setup cfg (construct g))"
| r_set_time: "reachable cal cfg s \<Longrightarrow> reachable cal cfg (set_time cal mi hr dd mo yy dst s)"
| r_add_time: "reachable cal cfg s \<Longrightarrow> reachable cal cfg (add_time cal mi hr s)"
| r_interrupt: "reachable cal cfg s \<Longrightarrow> reachable cal cfg (interrupt_routine cal s)"
| r_start: "reachable cal cfg s \<Longrightarrow> reachable cal cfg (start s)"
| r_stop: "reachable cal cfg s \<Longrightarrow> reachable cal cfg (stop s)"
| r_resume: "reachable cal cfg s \<Longrightarrow> reachable cal cfg (resume s)"
| r_set_low: "reachable cal cfg s \<Longrightarrow> reachable cal cfg (set_low s)"
| r_set_high: "reachable cal cfg s \<Longrightarrow> reachable cal cfg (set_high s)"

text \<open>
  An object with static storage duration (the \<open>wwvb wwvb_tx;\<close> of the header's example
  sketch) is constructed over zeroed storage.
\<close>

definition zeroed :: wwvb where
  "zeroed = \<lparr>MINS = (\<lambda>_. False), HOUR = (\<lambda>_. False), DOTY = (\<lambda>_. False),
     DUT1 = (\<lambda>_. False), YEAR = (\<lambda>_. False), MISC = (\<lambda>_. False),
     t_ss = 0, t_mm = 0, t_hh = 0, t_DD = 0, t_MM = 0, t_YY = 0,
     mins_st = 0, hour_st = 0, DD_st = 0, MM_st = 0, YY_st = 0, doty_st = 0,
     is_leap_year_st = False, daylight_savings_st = 0,
     WWVB_LOW = 0, WWVB_HIGH = 0, WWVB_MARKER = 0, WWVB_ENDOFBIT = 0,
     pulse_width = (\<lambda>_. 0), WWVB_LOWTIME = 0, PWM_LOW = 0, PWM_HIGH = 0,
     isr_count = 0, frame_index = 0, subframe_index = 0, is_active_st = False, OCR1 = 0\<rparr>"

definition tiny85 :: config where
  "tiny85 = \<lparr>attiny = True, F_CPU = 16000000\<rparr>"



text \<open>
  The data bit the frame layout assigns to a frame index: the cell \<open>frame_index mod 10\<close> of
  the subframe of its decade.
\<close>

definition frame_bit :: "wwvb \<Rightarrow> bool" where
  "frame_bit s =
     (let f = unat (frame_index s); i = f mod 10
      in if f < 10 then MINS s i else if f < 20 then HOUR s i else if f < 30 then DOTY s i
         else if f < 40 then DUT1 s i else if f < 50 then YEAR s i else MISC s i)"

section \<open>The weight ladder of the specification\<close>

text \<open>
  The encoding as the specification words it: each weight, largest first, either fits
  (bit 1, the value is reduced by it) or does not (bit 0); the final remainder is the last
  bit.
\<close>

fun weight_ladder :: "nat list \<Rightarrow> nat \<Rightarrow> bool list" where
  "weight_ladder [] v = [v \<noteq> 0]"
| "weight_ladder (w # ws) v =
     (if w \<le> v then True # weight_ladder ws (v - w) else False # weight_ladder ws v)"

text \<open>The value a list of bits stands for under a list of weights.\<close>

fun ladder_value :: "nat list \<Rightarrow> bool list \<Rightarrow> nat" where
  "ladder_value (w # ws) (b # bs) = (if b then w else 0) + ladder_value ws bs"
| "ladder_value _ _ = 0"

section \<open>The calendar utility\<close>

text \<open>
  Modelled from the spec: the calendar utility of \<open>TimeDateTools.h\<close> (\<open>is_leap_year\<close>,
  \<open>to_day_of_the_year\<close>, \<open>addTimezone\<close>) is missing from the source. The specification
  asks of it the leap-year flag, the 1-based day of the year (1 = 1 Jan, 365 or 366 =
  31 Dec) and an operation that adds minutes and hours with carry into hour, day, month
  and year. It has no seconds in its time state: the seconds operand and the third offset
  pass through without effect. It gives no rule for the year after 99: the model counts on.
\<close>

definition leap_year :: "int \<Rightarrow> bool" where
  "leap_year y = (y mod 4 = 0 \<and> (y mod 100 \<noteq> 0 \<or> y mod 400 = 0))"

definition days_in_month :: "bool \<Rightarrow> nat \<Rightarrow> nat" where
  "days_in_month ly m =
     (if m = 2 then (if ly then 29 else 28)
      else if m = 4 \<or> m = 6 \<or> m = 9 \<or> m = 11 then 30 else 31)"

definition day_of_the_year :: "nat \<Rightarrow> nat \<Rightarrow> bool \<Rightarrow> nat" where
  "day_of_the_year d m ly = d + sum_list (map (days_in_month ly) [1..<m])"

definition next_day :: "nat \<times> nat \<times> nat \<Rightarrow> nat \<times> nat \<times> nat" where
  "next_day dmy =
     (case dmy of (d, m, y) \<Rightarrow>
        if d < days_in_month (leap_year (2000 + int y)) m then (d + 1, m, y)
        else if m < 12 then (1, m + 1, y)
        else (1, 1, y + 1))"

definition add_hours_minutes :: "nat \<Rightarrow> nat \<Rightarrow> nat \<times> nat \<times> nat \<times> nat \<times> nat \<Rightarrow> nat \<times> nat \<times> nat \<times> nat \<times> nat" where
  "add_hours_minutes oh om t =
     (case t of (mi, hr, d, m, y) \<Rightarrow>
        let mins = mi + om;
            hrs = hr + oh + mins div 60
        in case (next_day ^^ (hrs div 24)) (d, m, y) of
             (d', m', y') \<Rightarrow> (mins mod 60, hrs mod 24, d', m', y'))"

definition TimeDateTools :: calendar where
  "TimeDateTools = \<lparr>
     is_leap_year = leap_year,
     to_day_of_the_year = (\<lambda>d m ly. of_nat (day_of_the_year (unat d) (unat m) ly)),
     addTimezone = (\<lambda>t oh om os.
       case t of (ss, mi, hr, d, m, y) \<Rightarrow>
         (case add_hours_minutes (unat oh) (unat om) (unat mi, unat hr, unat d, unat m, unat y) of
            (mi', hr', d', m', y') \<Rightarrow> (ss, of_nat mi', of_nat hr', of_nat d', of_nat m', of_nat y')))\<rparr>"

text \<open>
  "The input plus one minute, with calendar carry", case by case, and the times it is
  asked for.
\<close>

definition plus_one_minute :: "nat \<times> nat \<times> nat \<times> nat \<times> nat \<Rightarrow> nat \<times> nat \<times> nat \<times> nat \<times> nat" where
  "plus_one_minute t =
     (case t of (mi, hr, d, m, y) \<Rightarrow>
        if mi < 59 then (mi + 1, hr, d, m, y)
        else if hr < 23 then (0, hr + 1, d, m, y)
        else if d < days_in_month (leap_year (2000 + int y)) m then (0, 0, d + 1, m, y)
        else if m < 12 then (0, 0, 1, m + 1, y)
        else (0, 0, 1, 1, y + 1))"

definition valid_time :: "nat \<times> nat \<times> nat \<times> nat \<times> nat \<Rightarrow> bool" where
  "valid_time t =
     (case t of (mi, hr, d, m, y) \<Rightarrow>
        mi < 60 \<and> hr < 24 \<and> 1 \<le> m \<and> m \<le> 12 \<and> 1 \<le> d
        \<and> d \<le> days_in_month (leap_year (2000 + int y)) m \<and> y < 100)"

definition time_nat :: "u8 \<times> u8 \<times> u8 \<times> u8 \<times> u8 \<Rightarrow> nat \<times> nat \<times> nat \<times> nat \<times> nat" where
  "time_nat t = (case t of (mi, hr, d, m, y) \<Rightarrow> (unat mi, unat hr, unat d, unat m, unat y))"

section \<open>Auxiliary notions for the proofs\<close>

text \<open>What is left of a value after a weight of the ladder has been tried.\<close>

definition ladder_rem :: "'a::{ord,minus} \<Rightarrow> 'a \<Rightarrow> 'a" where
  "ladder_rem w v = (if w \<le> v then v - w else v)"

text \<open>What is left of a value after all the weights of a ladder.\<close>

fun ladder_rest :: "nat list \<Rightarrow> nat \<Rightarrow> nat" where
  "ladder_rest [] v = v"
| "ladder_rest (w # ws) v = ladder_rest ws (ladder_rem w v)"

text \<open>
  Two states agree on the members of the modulator and of the sequencer (everything but
  the time fields, the temporaries and the six subframes).
\<close>

definition modulator_kept :: "wwvb \<Rightarrow> wwvb \<Rightarrow> bool" where
  "modulator_kept s s' =
     (WWVB_LOW s' = WWVB_LOW s \<and> WWVB_HIGH s' = WWVB_HIGH s \<and> WWVB_MARKER s' = WWVB_MARKER s
      \<and> WWVB_ENDOFBIT s' = WWVB_ENDOFBIT s \<and> pulse_width s' = pulse_width s
      \<and> WWVB_LOWTIME s' = WWVB_LOWTIME s \<and> PWM_LOW s' = PWM_LOW s \<and> PWM_HIGH s' = PWM_HIGH s
      \<and> isr_count s' = isr_count s \<and> frame_index s' = frame_index s
      \<and> subframe_index s' = subframe_index s \<and> is_active_st s' = is_active_st s
      \<and> OCR1 s' = OCR1 s)"

text \<open>
  Two states agree on every cell of the six subframes outside the positions the encoders
  write: minute at \<open>MINS\<close> 1-3 and 5-8, hour at \<open>HOUR\<close> 2-3 and 5-8, day of the year at
  \<open>DOTY\<close> 2-3 and 5-8 and \<open>DUT1\<close> 0-3, year at \<open>YEAR\<close> 5-8 and \<open>MISC\<close> 0-3, leap-year
  flag and daylight-savings code at \<open>MISC\<close> 5, 7 and 8.
\<close>

definition cells_kept :: "wwvb \<Rightarrow> wwvb \<Rightarrow> bool" where
  "cells_kept s s' =
     ((\<forall>i. i \<notin> {1, 2, 3, 5, 6, 7, 8} \<longrightarrow> MINS s' i = MINS s i)
      \<and> (\<forall>i. i \<notin> {2, 3, 5, 6, 7, 8} \<longrightarrow> HOUR s' i = HOUR s i)
      \<and> (\<forall>i. i \<notin> {2, 3, 5, 6, 7, 8} \<longrightarrow> DOTY s' i = DOTY s i)
      \<and> (\<forall>i. i \<notin> {0, 1, 2, 3} \<longrightarrow> DUT1 s' i = DUT1 s i)
      \<and> (\<forall>i. i \<notin> {5, 6, 7, 8} \<longrightarrow> YEAR s' i = YEAR s i)
      \<and> (\<forall>i. i \<notin> {0, 1, 2, 3, 5, 7, 8} \<longrightarrow> MISC s' i = MISC s i))"


text \<open>
  The cells no encoder writes, with the values construction and \<open>set_dut1\<close> give them.
\<close>

definition fixed_cells_ok :: "wwvb \<Rightarrow> bool" where
  "fixed_cells_ok s =
     (\<not> MINS s 4 \<and> \<not> HOUR s 0 \<and> \<not> HOUR s 1 \<and> \<not> HOUR s 4
      \<and> \<not> DOTY s 0 \<and> \<not> DOTY s 1 \<and> \<not> DOTY s 4
      \<and> \<not> DUT1 s 4 \<and> \<not> DUT1 s 5 \<and> \<not> DUT1 s 6 \<and> DUT1 s 7 \<and> \<not> DUT1 s 8
      \<and> \<not> YEAR s 0 \<and> \<not> YEAR s 1 \<and> \<not> YEAR s 2 \<and> \<not> YEAR s 3 \<and> \<not> YEAR s 4
      \<and> \<not> MISC s 4 \<and> MISC s 6)"

text \<open>Two states agree on both.\<close>

definition kept :: "wwvb \<Rightarrow> wwvb \<Rightarrow> bool" where
  "kept s s' = (modulator_kept s s' \<and> cells_kept s s')"

text \<open>The frame index after a bit-second.\<close>

definition next_index :: "u8 \<Rightarrow> u8" where
  "next_index f = (if f + 1 = 60 then 0 else f + 1)"

text \<open>The state in which \<open>end_of_bit\<close> selects the next symbol.\<close>

definition rolled :: "calendar \<Rightarrow> wwvb \<Rightarrow> wwvb" where
  "rolled cal s =
     (let s = s\<lparr>OCR1 := PWM_LOW s\<rparr>;
          s = s\<lparr>frame_index := frame_index s + 1\<rparr>;
          s = (if frame_index s = 60 then (add_time cal 1 0 s)\<lparr>frame_index := 0\<rparr> else s)
      in s\<lparr>subframe_index := frame_index s mod 10\<rparr>)"

text \<open>
  The tick rate of the carrier in Hz, from the period registers \<open>setup\<close> writes:
  8 MHz / (132 + 1) on the ATtiny (\<open>OCR1C = 132\<close>), 16 MHz / (2 * 133) at 16 MHz
  (\<open>ICR1 = 133\<close>) and 8 MHz / (2 * 67) at 8 MHz (\<open>ICR1 = 67\<close>; the comment beside it
  computes with 66). At any other clock \<open>setup\<close> assigns no period: the value is 0.
\<close>

definition carrier_hz :: "config \<Rightarrow> nat" where
  "carrier_hz cfg =
     (if attiny cfg then 8000000 div (132 + 1)
      else if F_CPU cfg = 16000000 then 16000000 div (2 * 133)
      else if F_CPU cfg = 8000000 then 8000000 div (2 * 67)
      else 0)"

text \<open>
  The encode branches of the setters as functions of the value and the subframe: what an
  encoder without the comparison against the stored value writes.
\<close>

definition encode_mins :: "u8 \<Rightarrow> (nat \<Rightarrow> bool) \<Rightarrow> nat \<Rightarrow> bool" where
  "encode_mins v M =
     (let r1 = ladder_rem 40 v; r2 = ladder_rem 20 r1; r3 = ladder_rem 10 r2;
          r4 = ladder_rem 8 r3; r5 = ladder_rem 4 r4; r6 = ladder_rem 2 r5
      in M(1 := 40 \<le> v, 2 := 20 \<le> r1, 3 := 10 \<le> r2,
           5 := 8 \<le> r3, 6 := 4 \<le> r4, 7 := 2 \<le> r5, 8 := r6 \<noteq> 0))"

definition encode_hour :: "u8 \<Rightarrow> (nat \<Rightarrow> bool) \<Rightarrow> nat \<Rightarrow> bool" where
  "encode_hour v M =
     (let r1 = ladder_rem 20 v; r2 = ladder_rem 10 r1;
          r3 = ladder_rem 8 r2; r4 = ladder_rem 4 r3; r5 = ladder_rem 2 r4
      in M(2 := 20 \<le> v, 3 := 10 \<le> r1,
           5 := 8 \<le> r2, 6 := 4 \<le> r3, 7 := 2 \<le> r4, 8 := r5 \<noteq> 0))"

definition encode_doty_DOTY :: "u16 \<Rightarrow> (nat \<Rightarrow> bool) \<Rightarrow> nat \<Rightarrow> bool" where
  "encode_doty_DOTY v M =
     (let r1 = ladder_rem 200 v; r2 = ladder_rem 100 r1; r3 = ladder_rem 80 r2;
          r4 = ladder_rem 40 r3; r5 = ladder_rem 20 r4
      in M(2 := 200 \<le> v, 3 := 100 \<le> r1, 5 := 80 \<le> r2,
           6 := 40 \<le> r3, 7 := 20 \<le> r4, 8 := 10 \<le> r5))"

definition encode_doty_DUT1 :: "u16 \<Rightarrow> (nat \<Rightarrow> bool) \<Rightarrow> nat \<Rightarrow> bool" where
  "encode_doty_DUT1 v M =
     (let r1 = ladder_rem 200 v; r2 = ladder_rem 100 r1; r3 = ladder_rem 80 r2;
          r4 = ladder_rem 40 r3; r5 = ladder_rem 20 r4; r6 = ladder_rem 10 r5;
          r7 = ladder_rem 8 r6; r8 = ladder_rem 4 r7; r9 = ladder_rem 2 r8
      in M(0 := 8 \<le> r6, 1 := 4 \<le> r7, 2 := 2 \<le> r8, 3 := r9 \<noteq> 0))"

definition encode_year_YEAR :: "u8 \<Rightarrow> (nat \<Rightarrow> bool) \<Rightarrow> nat \<Rightarrow> bool" where
  "encode_year_YEAR v M =
     (let r1 = ladder_rem 80 v; r2 = ladder_rem 40 r1; r3 = ladder_rem 20 r2
      in M(5 := 80 \<le> v, 6 := 40 \<le> r1, 7 := 20 \<le> r2, 8 := 10 \<le> r3))"

definition encode_year_MISC :: "u8 \<Rightarrow> (nat \<Rightarrow> bool) \<Rightarrow> nat \<Rightarrow> bool" where
  "encode_year_MISC v M =
     (let r1 = ladder_rem 80 v; r2 = ladder_rem 40 r1; r3 = ladder_rem 20 r2;
          r4 = ladder_rem 10 r3; r5 = ladder_rem 8 r4; r6 = ladder_rem 4 r5;
          r7 = ladder_rem 2 r6
      in M(0 := 8 \<le> r4, 1 := 4 \<le> r5, 2 := 2 \<le> r6, 3 := r7 \<noteq> 0))"

definition encode_dst :: "u8 \<Rightarrow> (nat \<Rightarrow> bool) \<Rightarrow> nat \<Rightarrow> bool" where
  "encode_dst dst M = M(7 := ((drop_bit 1 dst) AND 1 \<noteq> 0), 8 := (dst AND 1 \<noteq> 0))"




text \<open>
  The states reached after a call of \<open>start\<close>: \<open>start\<close> in a reachable state, and then any
  sequence of calls of the public member functions and of the interrupt routine.
\<close>

inductive started :: "calendar \<Rightarrow> config \<Rightarrow> wwvb \<Rightarrow> bool" for cal :: calendar and cfg :: config where
  s_start: "reachable cal cfg s \<Longrightarrow> started cal cfg (start s)"
| s_set_time: "started cal cfg s \<Longrightarrow> started cal cfg (set_time cal mi hr dd mo yy dst s)"
| s_add_time: "started cal cfg s \<Longrightarrow> started cal cfg (add_time cal mi hr s)"
| s_interrupt: "started cal cfg s \<Longrightarrow> started cal cfg (interrupt_routine cal s)"
| s_stop: "started cal cfg s \<Longrightarrow> started cal cfg (stop s)"
| s_resume: "started cal cfg s \<Longrightarrow> started cal cfg (resume s)"
| s_set_low: "started cal cfg s \<Longrightarrow> started cal cfg (set_low s)"
| s_set_high: "started cal cfg s \<Longrightarrow> started cal cfg (set_high s)"

section \<open>The encoders, stage by stage\<close>

text \<open>
  One \<open>if\<close>/\<open>else\<close> of an encoder writes the comparison into the cell and leaves the
  remainder of the value.
\<close>

lemma stage_MINS:
  "(if w \<le> v then (v - w, s\<lparr>MINS := (MINS s)(k := True)\<rparr>)
    else (v, s\<lparr>MINS := (MINS s)(k := False)\<rparr>))
   = (ladder_rem w v, MINS_update (\<lambda>f. f(k := (w \<le> v))) s)"
  by (simp add: ladder_rem_def)

lemma stage_HOUR:
  "(if w \<le> v then (v - w, s\<lparr>HOUR := (HOUR s)(k := True)\<rparr>)
    else (v, s\<lparr>HOUR := (HOUR s)(k := False)\<rparr>))
   = (ladder_rem w v, HOUR_update (\<lambda>f. f(k := (w \<le> v))) s)"
  by (simp add: ladder_rem_def)

lemma stage_DOTY:
  "(if w \<le> v then (v - w, s\<lparr>DOTY := (DOTY s)(k := True)\<rparr>)
    else (v, s\<lparr>DOTY := (DOTY s)(k := False)\<rparr>))
   = (ladder_rem w v, DOTY_update (\<lambda>f. f(k := (w \<le> v))) s)"
  by (simp add: ladder_rem_def)

lemma stage_DUT1:
  "(if w \<le> v then (v - w, s\<lparr>DUT1 := (DUT1 s)(k := True)\<rparr>)
    else (v, s\<lparr>DUT1 := (DUT1 s)(k := False)\<rparr>))
   = (ladder_rem w v, DUT1_update (\<lambda>f. f(k := (w \<le> v))) s)"
  by (simp add: ladder_rem_def)

lemma stage_YEAR:
  "(if w \<le> v then (v - w, s\<lparr>YEAR := (YEAR s)(k := True)\<rparr>)
    else (v, s\<lparr>YEAR := (YEAR s)(k := False)\<rparr>))
   = (ladder_rem w v, YEAR_update (\<lambda>f. f(k := (w \<le> v))) s)"
  by (simp add: ladder_rem_def)

lemma stage_MISC:
  "(if w \<le> v then (v - w, s\<lparr>MISC := (MISC s)(k := True)\<rparr>)
    else (v, s\<lparr>MISC := (MISC s)(k := False)\<rparr>))
   = (ladder_rem w v, MISC_update (\<lambda>f. f(k := (w \<le> v))) s)"
  by (simp add: ladder_rem_def)

lemmas stages = stage_MINS stage_HOUR stage_DOTY stage_DUT1 stage_YEAR stage_MISC

lemma set_mins_same: "mins_st s = v \<Longrightarrow> set_mins v s = s"
  by (simp add: set_mins_def)

lemma set_mins_enc:
  "mins_st s \<noteq> v \<Longrightarrow>
   set_mins v s =
     (let r1 = ladder_rem 40 v; r2 = ladder_rem 20 r1; r3 = ladder_rem 10 r2;
          r4 = ladder_rem 8 r3; r5 = ladder_rem 4 r4; r6 = ladder_rem 2 r5
      in s\<lparr>mins_st := v,
           MINS := (MINS s)(1 := 40 \<le> v, 2 := 20 \<le> r1, 3 := 10 \<le> r2,
                            5 := 8 \<le> r3, 6 := 4 \<le> r4, 7 := 2 \<le> r5, 8 := r6 \<noteq> 0)\<rparr>)"
  unfolding set_mins_def
  apply (simp only: if_True simp_thms)
  apply (simp only: stages Let_def prod.case)
  apply (rule wwvb.equality; simp)
  done

lemma set_hour_same: "hour_st s = v \<Longrightarrow> set_hour v s = s"
  by (simp add: set_hour_def)

lemma set_hour_enc:
  "hour_st s \<noteq> v \<Longrightarrow>
   set_hour v s =
     (let r1 = ladder_rem 20 v; r2 = ladder_rem 10 r1;
          r3 = ladder_rem 8 r2; r4 = ladder_rem 4 r3; r5 = ladder_rem 2 r4
      in s\<lparr>hour_st := v,
           HOUR := (HOUR s)(2 := 20 \<le> v, 3 := 10 \<le> r1,
                            5 := 8 \<le> r2, 6 := 4 \<le> r3, 7 := 2 \<le> r4, 8 := r5 \<noteq> 0)\<rparr>)"
  unfolding set_hour_def
  apply (simp only: if_True simp_thms)
  apply (simp only: stages Let_def prod.case)
  apply (rule wwvb.equality; simp)
  done

lemma set_doty_same: "doty_st s = v \<Longrightarrow> set_doty v s = s"
  by (simp add: set_doty_def)

lemma set_doty_enc:
  "doty_st s \<noteq> v \<Longrightarrow>
   set_doty v s =
     (let r1 = ladder_rem 200 v; r2 = ladder_rem 100 r1; r3 = ladder_rem 80 r2;
          r4 = ladder_rem 40 r3; r5 = ladder_rem 20 r4; r6 = ladder_rem 10 r5;
          r7 = ladder_rem 8 r6; r8 = ladder_rem 4 r7; r9 = ladder_rem 2 r8
      in s\<lparr>doty_st := v,
           DOTY := (DOTY s)(2 := 200 \<le> v, 3 := 100 \<le> r1, 5 := 80 \<le> r2,
                            6 := 40 \<le> r3, 7 := 20 \<le> r4, 8 := 10 \<le> r5),
           DUT1 := (DUT1 s)(0 := 8 \<le> r6, 1 := 4 \<le> r7, 2 := 2 \<le> r8, 3 := r9 \<noteq> 0)\<rparr>)"
  unfolding set_doty_def
  apply (simp only: if_True simp_thms)
  apply (simp only: stages Let_def prod.case)
  apply (rule wwvb.equality; simp)
  done

lemma set_year_same: "YY_st s = v \<Longrightarrow> set_year v s = s"
  by (simp add: set_year_def)

lemma set_year_enc:
  "YY_st s \<noteq> v \<Longrightarrow>
   set_year v s =
     (let r1 = ladder_rem 80 v; r2 = ladder_rem 40 r1; r3 = ladder_rem 20 r2;
          r4 = ladder_rem 10 r3; r5 = ladder_rem 8 r4; r6 = ladder_rem 4 r5;
          r7 = ladder_rem 2 r6
      in s\<lparr>YY_st := v,
           YEAR := (YEAR s)(5 := 80 \<le> v, 6 := 40 \<le> r1, 7 := 20 \<le> r2, 8 := 10 \<le> r3),
           MISC := (MISC s)(0 := 8 \<le> r4, 1 := 4 \<le> r5, 2 := 2 \<le> r6, 3 := r7 \<noteq> 0)\<rparr>)"
  unfolding set_year_def
  apply (simp only: if_True simp_thms)
  apply (simp only: stages Let_def prod.case)
  apply (rule wwvb.equality; simp)
  done

text \<open>The cells an encoder has written are the bits of the weight ladder.\<close>

lemma weight_ladder_Cons:
  "weight_ladder (w # ws) n = (w \<le> n) # weight_ladder ws (ladder_rem w n)"
  by (simp add: ladder_rem_def)

lemma unat_ladder_rem: "unat (ladder_rem w v) = ladder_rem (unat w) (unat v)"
  by (simp add: ladder_rem_def word_le_nat_alt unat_sub)

lemmas to_ladder =
  weight_ladder_Cons word_le_nat_alt unat_ladder_rem unat_eq_0 [symmetric] Let_def

lemma set_mins_ladder:
  "mins_st s \<noteq> v \<Longrightarrow>
   map (MINS (set_mins v s)) [1, 2, 3, 5, 6, 7, 8] = weight_ladder [40, 20, 10, 8, 4, 2] (unat v)"
  by (simp add: set_mins_enc to_ladder del: weight_ladder.simps(2))

lemma set_hour_ladder:
  "hour_st s \<noteq> v \<Longrightarrow>
   map (HOUR (set_hour v s)) [2, 3, 5, 6, 7, 8] = weight_ladder [20, 10, 8, 4, 2] (unat v)"
  by (simp add: set_hour_enc to_ladder del: weight_ladder.simps(2))

lemma set_year_ladder:
  "YY_st s \<noteq> v \<Longrightarrow>
   map (YEAR (set_year v s)) [5, 6, 7, 8] @ map (MISC (set_year v s)) [0, 1, 2, 3]
     = weight_ladder [80, 40, 20, 10, 8, 4, 2] (unat v)"
  by (simp add: set_year_enc to_ladder del: weight_ladder.simps(2))

lemma set_doty_ladder:
  "doty_st s \<noteq> v \<Longrightarrow>
   map (DOTY (set_doty v s)) [2, 3, 5, 6, 7, 8] @ map (DUT1 (set_doty v s)) [0, 1, 2, 3]
     = weight_ladder [200, 100, 80, 40, 20, 10, 8, 4, 2] (unat v)"
  by (simp add: set_doty_enc to_ladder del: weight_ladder.simps(2))

section \<open>The weight ladder and decimal digits\<close>

lemma ladder_rem_mod: "x < 2 * w \<Longrightarrow> ladder_rem w x = x mod w" for x w :: nat
  by (simp add: ladder_rem_def le_mod_geq)

lemma ladder_rem_weight: "(if w \<le> n then w else 0) + ladder_rem w n = n" for w n :: nat
  by (simp add: ladder_rem_def)

lemma ladder_sum: "ladder_value ws (weight_ladder ws n) + ladder_rest ws n = n"
proof (induction ws arbitrary: n)
  case Nil
  show ?case by simp
next
  case (Cons w ws)
  have "ladder_value (w # ws) (weight_ladder (w # ws) n) + ladder_rest (w # ws) n
        = (if w \<le> n then w else 0)
          + (ladder_value ws (weight_ladder ws (ladder_rem w n)) + ladder_rest ws (ladder_rem w n))"
    by (simp add: weight_ladder_Cons del: weight_ladder.simps(2))
  also have "\<dots> = (if w \<le> n then w else 0) + ladder_rem w n"
    by (simp only: Cons.IH)
  also have "\<dots> = n" by (rule ladder_rem_weight)
  finally show ?case .
qed

lemma length_weight_ladder: "length (weight_ladder ws n) = Suc (length ws)"
  by (induction ws arbitrary: n) simp_all

lemma weight_ladder_append:
  "weight_ladder (ws @ ws') n = butlast (weight_ladder ws n) @ weight_ladder ws' (ladder_rest ws n)"
proof (induction ws arbitrary: n)
  case Nil
  show ?case by simp
next
  case (Cons w ws)
  have ne: "weight_ladder ws (ladder_rem w n) \<noteq> []"
    using length_weight_ladder [of ws "ladder_rem w n"] by auto
  show ?case
    using Cons.IH [of "ladder_rem w n"] ne
    by (simp add: weight_ladder_Cons del: weight_ladder.simps(2))
qed

lemma ladder_value_butlast:
  "length bs = Suc (length ws) \<Longrightarrow> ladder_value ws (butlast bs) = ladder_value ws bs"
proof (induction ws bs rule: ladder_value.induct)
  case (1 w ws b bs)
  then have "bs \<noteq> []" by auto
  with 1 show ?case by simp
qed simp_all

lemma ladder_value_scale:
  "ladder_value (map (\<lambda>w. k * w) ws) bs = k * ladder_value ws bs"
  by (induction ws bs rule: ladder_value.induct) (simp_all add: distrib_left)

lemma ladder_value_last:
  "ladder_value (ws @ [1]) (weight_ladder ws n)
   = ladder_value ws (weight_ladder ws n) + (if ladder_rest ws n \<noteq> 0 then 1 else 0)"
proof (induction ws arbitrary: n)
  case Nil
  show ?case by simp
next
  case (Cons w ws)
  show ?case using Cons.IH [of "ladder_rem w n"]
    by (simp add: weight_ladder_Cons del: weight_ladder.simps(2))
qed

lemma ladder_decode:
  assumes "ladder_rest ws n \<le> 1"
  shows "ladder_value (ws @ [1]) (weight_ladder ws n) = n"
proof -
  have e: "(if ladder_rest ws n \<noteq> 0 then 1 else 0) = ladder_rest ws n"
    using assms by (cases "ladder_rest ws n") auto
  have "ladder_value (ws @ [1]) (weight_ladder ws n)
        = ladder_value ws (weight_ladder ws n) + ladder_rest ws n"
    by (simp only: ladder_value_last e)
  also have "\<dots> = n" by (rule ladder_sum)
  finally show ?thesis .
qed

lemma ones_digit: "x < 16 \<Longrightarrow> ladder_value [8, 4, 2, 1] (weight_ladder [8, 4, 2] x) = x"
proof -
  assume x: "x < 16"
  have "ladder_rest [8, 4, 2] x = x mod 2"
    using x by (simp add: ladder_rem_mod mod_mod_cancel)
  then have "ladder_rest [8, 4, 2] x \<le> 1" by simp
  from ladder_decode [OF this] show ?thesis by simp
qed

text \<open>
  A group of weights \<open>k * w\<close> whose remainder is \<open>x mod k\<close> holds, under the weights
  \<open>w\<close>, the digit \<open>x div k\<close>.
\<close>

lemma group_digit:
  assumes "ladder_rest (map (\<lambda>w. k * w) ws) x = x mod k" and "0 < k"
  shows "ladder_value ws (butlast (weight_ladder (map (\<lambda>w. k * w) ws) x)) = x div k"
proof -
  let ?bs = "weight_ladder (map (\<lambda>w. k * w) ws) x"
  have "ladder_value (map (\<lambda>w. k * w) ws) ?bs + x mod k = x"
    using ladder_sum [of "map (\<lambda>w. k * w) ws" x] assms(1) by simp
  then have "k * ladder_value ws ?bs = x - x mod k"
    by (simp only: ladder_value_scale)
  also have "\<dots> = k * (x div k)" by (simp add: minus_mod_eq_mult_div)
  finally have "ladder_value ws ?bs = x div k" using assms(2) by simp
  moreover have "length ?bs = Suc (length ws)" by (simp add: length_weight_ladder)
  ultimately show ?thesis by (simp add: ladder_value_butlast)
qed

lemma hundreds_digit:
  assumes "n < 400"
  shows "ladder_rest [200, 100] n = n mod 100"
    and "ladder_value [2, 1] (butlast (weight_ladder [200, 100] n)) = n div 100"
proof -
  show r: "ladder_rest [200, 100] n = n mod 100"
    using assms by (simp add: ladder_rem_mod mod_mod_cancel)
  show "ladder_value [2, 1] (butlast (weight_ladder [200, 100] n)) = n div 100"
    using group_digit [of 100 "[2, 1]" n] r by simp
qed

lemma tens_digit:
  assumes "x < 160"
  shows "ladder_rest [80, 40, 20, 10] x = x mod 10"
    and "ladder_value [8, 4, 2, 1] (butlast (weight_ladder [80, 40, 20, 10] x)) = x div 10"
proof -
  show r: "ladder_rest [80, 40, 20, 10] x = x mod 10"
    using assms by (simp add: ladder_rem_mod mod_mod_cancel)
  show "ladder_value [8, 4, 2, 1] (butlast (weight_ladder [80, 40, 20, 10] x)) = x div 10"
    using group_digit [of 10 "[8, 4, 2, 1]" x] r by simp
qed

lemma tens_digit_mins:
  assumes "x < 80"
  shows "ladder_rest [40, 20, 10] x = x mod 10"
    and "ladder_value [4, 2, 1] (butlast (weight_ladder [40, 20, 10] x)) = x div 10"
proof -
  show r: "ladder_rest [40, 20, 10] x = x mod 10"
    using assms by (simp add: ladder_rem_mod mod_mod_cancel)
  show "ladder_value [4, 2, 1] (butlast (weight_ladder [40, 20, 10] x)) = x div 10"
    using group_digit [of 10 "[4, 2, 1]" x] r by simp
qed

lemma tens_digit_hour:
  assumes "x < 40"
  shows "ladder_rest [20, 10] x = x mod 10"
    and "ladder_value [2, 1] (butlast (weight_ladder [20, 10] x)) = x div 10"
proof -
  show r: "ladder_rest [20, 10] x = x mod 10"
    using assms by (simp add: ladder_rem_mod mod_mod_cancel)
  show "ladder_value [2, 1] (butlast (weight_ladder [20, 10] x)) = x div 10"
    using group_digit [of 10 "[2, 1]" x] r by simp
qed

text \<open>The digits in the cells.\<close>

lemma set_mins_digits:
  assumes "mins_st s \<noteq> v" and "unat v < 80"
  shows "ladder_value [4, 2, 1] (map (MINS (set_mins v s)) [1, 2, 3]) = unat v div 10"
    and "ladder_value [8, 4, 2, 1] (map (MINS (set_mins v s)) [5, 6, 7, 8]) = unat v mod 10"
proof -
  have "map (MINS (set_mins v s)) [1, 2, 3] = butlast (weight_ladder [40, 20, 10] (unat v))"
    using assms(1) by (simp add: set_mins_enc to_ladder del: weight_ladder.simps(2))
  then show "ladder_value [4, 2, 1] (map (MINS (set_mins v s)) [1, 2, 3]) = unat v div 10"
    by (simp only: tens_digit_mins(2) [OF assms(2)])
  have "map (MINS (set_mins v s)) [5, 6, 7, 8]
        = weight_ladder [8, 4, 2] (ladder_rest [40, 20, 10] (unat v))"
    using assms(1) by (simp add: set_mins_enc to_ladder del: weight_ladder.simps(2))
  then have ones: "map (MINS (set_mins v s)) [5, 6, 7, 8] = weight_ladder [8, 4, 2] (unat v mod 10)"
    by (simp only: tens_digit_mins(1) [OF assms(2)])
  have "unat v mod 10 < 16" by (rule less_trans [OF mod_less_divisor]) simp_all
  then show "ladder_value [8, 4, 2, 1] (map (MINS (set_mins v s)) [5, 6, 7, 8]) = unat v mod 10"
    unfolding ones by (rule ones_digit)
qed

lemma set_hour_digits:
  assumes "hour_st s \<noteq> v" and "unat v < 40"
  shows "ladder_value [2, 1] (map (HOUR (set_hour v s)) [2, 3]) = unat v div 10"
    and "ladder_value [8, 4, 2, 1] (map (HOUR (set_hour v s)) [5, 6, 7, 8]) = unat v mod 10"
proof -
  have "map (HOUR (set_hour v s)) [2, 3] = butlast (weight_ladder [20, 10] (unat v))"
    using assms(1) by (simp add: set_hour_enc to_ladder del: weight_ladder.simps(2))
  then show "ladder_value [2, 1] (map (HOUR (set_hour v s)) [2, 3]) = unat v div 10"
    by (simp only: tens_digit_hour(2) [OF assms(2)])
  have "map (HOUR (set_hour v s)) [5, 6, 7, 8]
        = weight_ladder [8, 4, 2] (ladder_rest [20, 10] (unat v))"
    using assms(1) by (simp add: set_hour_enc to_ladder del: weight_ladder.simps(2))
  then have ones: "map (HOUR (set_hour v s)) [5, 6, 7, 8] = weight_ladder [8, 4, 2] (unat v mod 10)"
    by (simp only: tens_digit_hour(1) [OF assms(2)])
  have "unat v mod 10 < 16" by (rule less_trans [OF mod_less_divisor]) simp_all
  then show "ladder_value [8, 4, 2, 1] (map (HOUR (set_hour v s)) [5, 6, 7, 8]) = unat v mod 10"
    unfolding ones by (rule ones_digit)
qed

lemma set_year_digits:
  assumes "YY_st s \<noteq> v" and "unat v < 160"
  shows "ladder_value [8, 4, 2, 1] (map (YEAR (set_year v s)) [5, 6, 7, 8]) = unat v div 10"
    and "ladder_value [8, 4, 2, 1] (map (MISC (set_year v s)) [0, 1, 2, 3]) = unat v mod 10"
proof -
  have "map (YEAR (set_year v s)) [5, 6, 7, 8] = butlast (weight_ladder [80, 40, 20, 10] (unat v))"
    using assms(1) by (simp add: set_year_enc to_ladder del: weight_ladder.simps(2))
  then show "ladder_value [8, 4, 2, 1] (map (YEAR (set_year v s)) [5, 6, 7, 8]) = unat v div 10"
    by (simp only: tens_digit(2) [OF assms(2)])
  have "map (MISC (set_year v s)) [0, 1, 2, 3]
        = weight_ladder [8, 4, 2] (ladder_rest [80, 40, 20, 10] (unat v))"
    using assms(1) by (simp add: set_year_enc to_ladder del: weight_ladder.simps(2))
  then have ones: "map (MISC (set_year v s)) [0, 1, 2, 3] = weight_ladder [8, 4, 2] (unat v mod 10)"
    by (simp only: tens_digit(1) [OF assms(2)])
  have "unat v mod 10 < 16" by (rule less_trans [OF mod_less_divisor]) simp_all
  then show "ladder_value [8, 4, 2, 1] (map (MISC (set_year v s)) [0, 1, 2, 3]) = unat v mod 10"
    unfolding ones by (rule ones_digit)
qed

lemma set_doty_digits:
  assumes "doty_st s \<noteq> v" and "unat v < 400"
  shows "ladder_value [2, 1] (map (DOTY (set_doty v s)) [2, 3]) = unat v div 100"
    and "ladder_value [8, 4, 2, 1] (map (DOTY (set_doty v s)) [5, 6, 7, 8]) = unat v div 10 mod 10"
    and "ladder_value [8, 4, 2, 1] (map (DUT1 (set_doty v s)) [0, 1, 2, 3]) = unat v mod 10"
proof -
  have m: "unat v mod 100 < 160" by (rule less_trans [OF mod_less_divisor]) simp_all
  have d: "unat v mod 100 div 10 = unat v div 10 mod 10"
    by (simp add: mod_mult2_eq [of _ 10 10, simplified])
  have o: "unat v mod 100 mod 10 = unat v mod 10"
    by (simp add: mod_mod_cancel)
  have "map (DOTY (set_doty v s)) [2, 3] = butlast (weight_ladder [200, 100] (unat v))"
    using assms(1) by (simp add: set_doty_enc to_ladder del: weight_ladder.simps(2))
  then show "ladder_value [2, 1] (map (DOTY (set_doty v s)) [2, 3]) = unat v div 100"
    by (simp only: hundreds_digit(2) [OF assms(2)])
  have "map (DOTY (set_doty v s)) [5, 6, 7, 8]
        = butlast (weight_ladder [80, 40, 20, 10] (ladder_rest [200, 100] (unat v)))"
    using assms(1) by (simp add: set_doty_enc to_ladder del: weight_ladder.simps(2))
  then show "ladder_value [8, 4, 2, 1] (map (DOTY (set_doty v s)) [5, 6, 7, 8]) = unat v div 10 mod 10"
    by (simp only: hundreds_digit(1) [OF assms(2)] tens_digit(2) [OF m] d)
  have "map (DUT1 (set_doty v s)) [0, 1, 2, 3]
        = weight_ladder [8, 4, 2] (ladder_rest [80, 40, 20, 10] (ladder_rest [200, 100] (unat v)))"
    using assms(1) by (simp add: set_doty_enc to_ladder del: weight_ladder.simps(2))
  then have ones: "map (DUT1 (set_doty v s)) [0, 1, 2, 3] = weight_ladder [8, 4, 2] (unat v mod 10)"
    by (simp only: hundreds_digit(1) [OF assms(2)] tens_digit(1) [OF m] o)
  have "unat v mod 10 < 16" by (rule less_trans [OF mod_less_divisor]) simp_all
  then show "ladder_value [8, 4, 2, 1] (map (DUT1 (set_doty v s)) [0, 1, 2, 3]) = unat v mod 10"
    unfolding ones by (rule ones_digit)
qed

section \<open>What the time-state updates leave alone\<close>

lemma kept_refl: "kept s s"
  by (simp add: kept_def modulator_kept_def cells_kept_def)

lemma kept_trans: "kept s s' \<Longrightarrow> kept s' s'' \<Longrightarrow> kept s s''"
  by (simp add: kept_def modulator_kept_def cells_kept_def)

lemma kept_set_mins: "kept s (set_mins v s)"
  by (cases "mins_st s = v")
     (simp_all add: set_mins_same set_mins_enc Let_def kept_def modulator_kept_def cells_kept_def)

lemma kept_set_hour: "kept s (set_hour v s)"
  by (cases "hour_st s = v")
     (simp_all add: set_hour_same set_hour_enc Let_def kept_def modulator_kept_def cells_kept_def)

lemma kept_set_doty: "kept s (set_doty v s)"
  by (cases "doty_st s = v")
     (simp_all add: set_doty_same set_doty_enc Let_def kept_def modulator_kept_def cells_kept_def)

lemma kept_set_year: "kept s (set_year v s)"
  by (cases "YY_st s = v")
     (simp_all add: set_year_same set_year_enc Let_def kept_def modulator_kept_def cells_kept_def)

lemma kept_set_day: "kept s (set_day v s)"
  by (simp add: set_day_def kept_def modulator_kept_def cells_kept_def)

lemma kept_set_month: "kept s (set_month v s)"
  by (simp add: set_month_def kept_def modulator_kept_def cells_kept_def)

lemma kept_set_misc: "kept s (set_misc ly dst s)"
  by (simp add: set_misc_def Let_def kept_def modulator_kept_def cells_kept_def)

lemma kept_set_time_priv: "kept s (set_time_priv cal dst s)"
  unfolding set_time_priv_def Let_def
  by (intro kept_trans [OF _ kept_set_misc] kept_trans [OF _ kept_set_year]
        kept_trans [OF _ kept_set_doty] kept_trans [OF _ kept_set_month]
        kept_trans [OF _ kept_set_day] kept_trans [OF _ kept_set_hour] kept_set_mins)

lemma kept_store_temps: "kept s (store_temps r s)"
  by (cases r) (simp add: store_temps_def kept_def modulator_kept_def cells_kept_def)

lemma kept_temps:
  "kept s (s\<lparr>t_mm := a, t_hh := b, t_DD := c, t_MM := d, t_YY := e\<rparr>)"
  by (simp add: kept_def modulator_kept_def cells_kept_def)

lemma kept_set_time: "kept s (set_time cal mi hr dd mo yy dst s)"
  unfolding set_time_def Let_def
  by (intro kept_trans [OF _ kept_set_time_priv] kept_trans [OF _ kept_store_temps] kept_temps)

lemma kept_add_time: "kept s (add_time cal mi hr s)"
  unfolding add_time_def Let_def get_time_def prod.case
  by (intro kept_trans [OF _ kept_set_time_priv] kept_trans [OF _ kept_store_temps] kept_temps)

text \<open>The same, member by member.\<close>

lemma set_time_modulator [simp]:
  "WWVB_LOW (set_time cal mi hr dd mo yy dst s) = WWVB_LOW s"
  "WWVB_HIGH (set_time cal mi hr dd mo yy dst s) = WWVB_HIGH s"
  "WWVB_MARKER (set_time cal mi hr dd mo yy dst s) = WWVB_MARKER s"
  "WWVB_ENDOFBIT (set_time cal mi hr dd mo yy dst s) = WWVB_ENDOFBIT s"
  "pulse_width (set_time cal mi hr dd mo yy dst s) = pulse_width s"
  "WWVB_LOWTIME (set_time cal mi hr dd mo yy dst s) = WWVB_LOWTIME s"
  "PWM_LOW (set_time cal mi hr dd mo yy dst s) = PWM_LOW s"
  "PWM_HIGH (set_time cal mi hr dd mo yy dst s) = PWM_HIGH s"
  "isr_count (set_time cal mi hr dd mo yy dst s) = isr_count s"
  "frame_index (set_time cal mi hr dd mo yy dst s) = frame_index s"
  "subframe_index (set_time cal mi hr dd mo yy dst s) = subframe_index s"
  "is_active_st (set_time cal mi hr dd mo yy dst s) = is_active_st s"
  "OCR1 (set_time cal mi hr dd mo yy dst s) = OCR1 s"
  using kept_set_time [of s cal mi hr dd mo yy dst] by (simp_all add: kept_def modulator_kept_def)

lemma set_time_cells:
  "i \<notin> {1, 2, 3, 5, 6, 7, 8} \<Longrightarrow> MINS (set_time cal mi hr dd mo yy dst s) i = MINS s i"
  "i \<notin> {2, 3, 5, 6, 7, 8} \<Longrightarrow> HOUR (set_time cal mi hr dd mo yy dst s) i = HOUR s i"
  "i \<notin> {2, 3, 5, 6, 7, 8} \<Longrightarrow> DOTY (set_time cal mi hr dd mo yy dst s) i = DOTY s i"
  "i \<notin> {0, 1, 2, 3} \<Longrightarrow> DUT1 (set_time cal mi hr dd mo yy dst s) i = DUT1 s i"
  "i \<notin> {5, 6, 7, 8} \<Longrightarrow> YEAR (set_time cal mi hr dd mo yy dst s) i = YEAR s i"
  "i \<notin> {0, 1, 2, 3, 5, 7, 8} \<Longrightarrow> MISC (set_time cal mi hr dd mo yy dst s) i = MISC s i"
  using kept_set_time [of s cal mi hr dd mo yy dst] by (simp_all add: kept_def cells_kept_def)

lemma add_time_modulator [simp]:
  "WWVB_LOW (add_time cal mi hr s) = WWVB_LOW s"
  "WWVB_HIGH (add_time cal mi hr s) = WWVB_HIGH s"
  "WWVB_MARKER (add_time cal mi hr s) = WWVB_MARKER s"
  "WWVB_ENDOFBIT (add_time cal mi hr s) = WWVB_ENDOFBIT s"
  "pulse_width (add_time cal mi hr s) = pulse_width s"
  "WWVB_LOWTIME (add_time cal mi hr s) = WWVB_LOWTIME s"
  "PWM_LOW (add_time cal mi hr s) = PWM_LOW s"
  "PWM_HIGH (add_time cal mi hr s) = PWM_HIGH s"
  "isr_count (add_time cal mi hr s) = isr_count s"
  "frame_index (add_time cal mi hr s) = frame_index s"
  "subframe_index (add_time cal mi hr s) = subframe_index s"
  "is_active_st (add_time cal mi hr s) = is_active_st s"
  "OCR1 (add_time cal mi hr s) = OCR1 s"
  using kept_add_time [of s cal mi hr] by (simp_all add: kept_def modulator_kept_def)

lemma add_time_cells:
  "i \<notin> {1, 2, 3, 5, 6, 7, 8} \<Longrightarrow> MINS (add_time cal mi hr s) i = MINS s i"
  "i \<notin> {2, 3, 5, 6, 7, 8} \<Longrightarrow> HOUR (add_time cal mi hr s) i = HOUR s i"
  "i \<notin> {2, 3, 5, 6, 7, 8} \<Longrightarrow> DOTY (add_time cal mi hr s) i = DOTY s i"
  "i \<notin> {0, 1, 2, 3} \<Longrightarrow> DUT1 (add_time cal mi hr s) i = DUT1 s i"
  "i \<notin> {5, 6, 7, 8} \<Longrightarrow> YEAR (add_time cal mi hr s) i = YEAR s i"
  "i \<notin> {0, 1, 2, 3, 5, 7, 8} \<Longrightarrow> MISC (add_time cal mi hr s) i = MISC s i"
  using kept_add_time [of s cal mi hr] by (simp_all add: kept_def cells_kept_def)

section \<open>The sequencer and the modulator\<close>

lemma set_lowTime_frame [simp]:
  "WWVB_LOW (set_lowTime s) = WWVB_LOW s" "WWVB_HIGH (set_lowTime s) = WWVB_HIGH s"
  "WWVB_MARKER (set_lowTime s) = WWVB_MARKER s" "WWVB_ENDOFBIT (set_lowTime s) = WWVB_ENDOFBIT s"
  "pulse_width (set_lowTime s) = pulse_width s"
  "PWM_LOW (set_lowTime s) = PWM_LOW s" "PWM_HIGH (set_lowTime s) = PWM_HIGH s"
  "frame_index (set_lowTime s) = frame_index s" "is_active_st (set_lowTime s) = is_active_st s"
  "isr_count (set_lowTime s) = isr_count s" "OCR1 (set_lowTime s) = OCR1 s"
  "get_time (set_lowTime s) = get_time s" "doty_st (set_lowTime s) = doty_st s"
  "MINS (set_lowTime s) = MINS s" "HOUR (set_lowTime s) = HOUR s" "DOTY (set_lowTime s) = DOTY s"
  "DUT1 (set_lowTime s) = DUT1 s" "YEAR (set_lowTime s) = YEAR s" "MISC (set_lowTime s) = MISC s"
  by (simp_all add: set_lowTime_def Let_def get_time_def)

lemma end_of_bit_rolled: "end_of_bit cal s = (set_lowTime (rolled cal s))\<lparr>isr_count := 0\<rparr>"
  by (simp add: end_of_bit_def rolled_def Let_def)

lemma rolled_modulator [simp]:
  "WWVB_LOW (rolled cal s) = WWVB_LOW s" "WWVB_HIGH (rolled cal s) = WWVB_HIGH s"
  "WWVB_MARKER (rolled cal s) = WWVB_MARKER s" "WWVB_ENDOFBIT (rolled cal s) = WWVB_ENDOFBIT s"
  "pulse_width (rolled cal s) = pulse_width s"
  "PWM_LOW (rolled cal s) = PWM_LOW s" "PWM_HIGH (rolled cal s) = PWM_HIGH s"
  "is_active_st (rolled cal s) = is_active_st s"
  "frame_index (rolled cal s) = next_index (frame_index s)"
  "OCR1 (rolled cal s) = PWM_LOW s"
  by (simp_all add: rolled_def Let_def next_index_def)

lemma rolled_cells:
  "i \<notin> {1, 2, 3, 5, 6, 7, 8} \<Longrightarrow> MINS (rolled cal s) i = MINS s i"
  "i \<notin> {2, 3, 5, 6, 7, 8} \<Longrightarrow> HOUR (rolled cal s) i = HOUR s i"
  "i \<notin> {2, 3, 5, 6, 7, 8} \<Longrightarrow> DOTY (rolled cal s) i = DOTY s i"
  "i \<notin> {0, 1, 2, 3} \<Longrightarrow> DUT1 (rolled cal s) i = DUT1 s i"
  "i \<notin> {5, 6, 7, 8} \<Longrightarrow> YEAR (rolled cal s) i = YEAR s i"
  "i \<notin> {0, 1, 2, 3, 5, 7, 8} \<Longrightarrow> MISC (rolled cal s) i = MISC s i"
  by (simp_all add: rolled_def Let_def add_time_cells)

lemma end_of_bit_modulator [simp]:
  "WWVB_LOW (end_of_bit cal s) = WWVB_LOW s" "WWVB_HIGH (end_of_bit cal s) = WWVB_HIGH s"
  "WWVB_MARKER (end_of_bit cal s) = WWVB_MARKER s"
  "WWVB_ENDOFBIT (end_of_bit cal s) = WWVB_ENDOFBIT s"
  "pulse_width (end_of_bit cal s) = pulse_width s"
  "PWM_LOW (end_of_bit cal s) = PWM_LOW s" "PWM_HIGH (end_of_bit cal s) = PWM_HIGH s"
  "is_active_st (end_of_bit cal s) = is_active_st s"
  "frame_index (end_of_bit cal s) = next_index (frame_index s)"
  "OCR1 (end_of_bit cal s) = PWM_LOW s" "isr_count (end_of_bit cal s) = 0"
  by (simp_all add: end_of_bit_rolled)

lemma end_of_bit_cells:
  "i \<notin> {1, 2, 3, 5, 6, 7, 8} \<Longrightarrow> MINS (end_of_bit cal s) i = MINS s i"
  "i \<notin> {2, 3, 5, 6, 7, 8} \<Longrightarrow> HOUR (end_of_bit cal s) i = HOUR s i"
  "i \<notin> {2, 3, 5, 6, 7, 8} \<Longrightarrow> DOTY (end_of_bit cal s) i = DOTY s i"
  "i \<notin> {0, 1, 2, 3} \<Longrightarrow> DUT1 (end_of_bit cal s) i = DUT1 s i"
  "i \<notin> {5, 6, 7, 8} \<Longrightarrow> YEAR (end_of_bit cal s) i = YEAR s i"
  "i \<notin> {0, 1, 2, 3, 5, 7, 8} \<Longrightarrow> MISC (end_of_bit cal s) i = MISC s i"
  by (simp_all add: end_of_bit_rolled rolled_cells)

lemma interrupt_routine_tables [simp]:
  "WWVB_LOW (interrupt_routine cal s) = WWVB_LOW s"
  "WWVB_HIGH (interrupt_routine cal s) = WWVB_HIGH s"
  "WWVB_MARKER (interrupt_routine cal s) = WWVB_MARKER s"
  "WWVB_ENDOFBIT (interrupt_routine cal s) = WWVB_ENDOFBIT s"
  "pulse_width (interrupt_routine cal s) = pulse_width s"
  "PWM_LOW (interrupt_routine cal s) = PWM_LOW s" "PWM_HIGH (interrupt_routine cal s) = PWM_HIGH s"
  "is_active_st (interrupt_routine cal s) = is_active_st s"
  by (simp_all add: interrupt_routine_def Let_def)

lemma interrupt_routine_cells:
  "i \<notin> {1, 2, 3, 5, 6, 7, 8} \<Longrightarrow> MINS (interrupt_routine cal s) i = MINS s i"
  "i \<notin> {2, 3, 5, 6, 7, 8} \<Longrightarrow> HOUR (interrupt_routine cal s) i = HOUR s i"
  "i \<notin> {2, 3, 5, 6, 7, 8} \<Longrightarrow> DOTY (interrupt_routine cal s) i = DOTY s i"
  "i \<notin> {0, 1, 2, 3} \<Longrightarrow> DUT1 (interrupt_routine cal s) i = DUT1 s i"
  "i \<notin> {5, 6, 7, 8} \<Longrightarrow> YEAR (interrupt_routine cal s) i = YEAR s i"
  "i \<notin> {0, 1, 2, 3, 5, 7, 8} \<Longrightarrow> MISC (interrupt_routine cal s) i = MISC s i"
  by (simp_all add: interrupt_routine_def Let_def end_of_bit_cells)


lemma next_index_less: "f < 60 \<Longrightarrow> next_index f < 60"
  unfolding next_index_def by (simp add: word_less_nat_alt unat_word_ariths) unat_arith

lemma start_frame [simp]:
  "WWVB_LOW (start s) = WWVB_LOW s" "WWVB_HIGH (start s) = WWVB_HIGH s"
  "WWVB_MARKER (start s) = WWVB_MARKER s" "WWVB_ENDOFBIT (start s) = WWVB_ENDOFBIT s"
  "pulse_width (start s) = pulse_width s"
  "PWM_LOW (start s) = PWM_LOW s" "PWM_HIGH (start s) = PWM_HIGH s"
  "frame_index (start s) = 0" "isr_count (start s) = isr_count s"
  "WWVB_LOWTIME (start s) = WWVB_MARKER s" "OCR1 (start s) = PWM_LOW s"
  "MINS (start s) = MINS s" "HOUR (start s) = HOUR s" "DOTY (start s) = DOTY s"
  "DUT1 (start s) = DUT1 s" "YEAR (start s) = YEAR s" "MISC (start s) = MISC s"
  by (simp_all add: start_def resume_def set_lowTime_def is_marker_def Let_def)

section \<open>Invariants of the reachable states\<close>

lemma config_cases:
  obtains "attiny cfg" | "\<not> attiny cfg" "F_CPU cfg = 16000000"
    | "\<not> attiny cfg" "F_CPU cfg = 8000000"
    | "\<not> attiny cfg" "F_CPU cfg \<noteq> 16000000" "F_CPU cfg \<noteq> 8000000"
  by blast


lemma setup_fixed_cells_ok: "fixed_cells_ok (wwvb_setup cfg (construct g))"
  by (cases cfg rule: config_cases)
     (simp_all add: fixed_cells_ok_def wwvb_setup_def set_dut1_def construct_def cells_def Let_def)


lemma reachable_fixed_cells_ok: "reachable cal cfg s \<Longrightarrow> fixed_cells_ok s"
proof (induction rule: reachable.induct)
  case (r_setup g)
  show ?case by (rule setup_fixed_cells_ok)
qed (simp_all add: fixed_cells_ok_def set_time_cells add_time_cells interrupt_routine_cells
       stop_def resume_def set_low_def set_high_def)

section \<open>The day of the year across two subframes\<close>

text \<open>
  Claim C8. For every day of the year from 1 to 366, when \<open>set_doty\<close> encodes it (the
  stored value differs), the cells \<open>DOTY\<close> 2-3 and 5-8 followed by \<open>DUT1\<close> 0-3 are the
  weight ladder 200, 100, 80, 40, 20, 10, 8, 4, 2, 1 of the value: \<open>DOTY\<close> 2-3 hold the
  hundreds digit under the weights 2, 1, \<open>DOTY\<close> 5-8 the tens digit and \<open>DUT1\<close> 0-3 the
  ones digit, both under the weights 8, 4, 2, 1.
\<close>

theorem doty_encoding:
  assumes "1 \<le> unat d" and "unat d \<le> 366" and "doty_st s \<noteq> d"
  shows "map (DOTY (set_doty d s)) [2, 3, 5, 6, 7, 8] @ map (DUT1 (set_doty d s)) [0, 1, 2, 3]
           = weight_ladder [200, 100, 80, 40, 20, 10, 8, 4, 2] (unat d)
         \<and> ladder_value [2, 1] (map (DOTY (set_doty d s)) [2, 3]) = unat d div 100
         \<and> ladder_value [8, 4, 2, 1] (map (DOTY (set_doty d s)) [5, 6, 7, 8]) = unat d div 10 mod 10
         \<and> ladder_value [8, 4, 2, 1] (map (DUT1 (set_doty d s)) [0, 1, 2, 3]) = unat d mod 10
         \<and> doty_st (set_doty d s) = d"
proof -
  have n: "unat d < 400" using assms(2) by simp
  have "doty_st (set_doty d s) = d"
    using assms(3) by (simp add: set_doty_enc Let_def)
  with set_doty_ladder [OF assms(3)] set_doty_digits [OF assms(3) n]
  show ?thesis by blast
qed

theorem doty_encoding_witness:
  "1 \<le> unat (366 :: u16) \<and> unat (366 :: u16) \<le> 366 \<and> doty_st zeroed \<noteq> 366
   \<and> map (DOTY (set_doty 366 zeroed)) [2, 3, 5, 6, 7, 8]
       @ map (DUT1 (set_doty 366 zeroed)) [0, 1, 2, 3]
      = [True, True, False, True, True, False, False, True, True, False]
   \<and> ladder_value [2, 1] (map (DOTY (set_doty 366 zeroed)) [2, 3]) = 3
   \<and> ladder_value [8, 4, 2, 1] (map (DOTY (set_doty 366 zeroed)) [5, 6, 7, 8]) = 6
   \<and> ladder_value [8, 4, 2, 1] (map (DUT1 (set_doty 366 zeroed)) [0, 1, 2, 3]) = 6"
  using doty_encoding [of 366 zeroed] by (simp add: zeroed_def)

section \<open>What \<open>setup\<close> leaves in the object\<close>

lemma setup_thresholds:
  "WWVB_LOW (wwvb_setup cfg s) = (if attiny cfg \<or> F_CPU cfg = 16000000 then 12121 else 12030)"
  "WWVB_HIGH (wwvb_setup cfg s) = (if attiny cfg \<or> F_CPU cfg = 16000000 then 30303 else 30075)"
  "WWVB_MARKER (wwvb_setup cfg s) = (if attiny cfg \<or> F_CPU cfg = 16000000 then 48485 else 48120)"
  "WWVB_ENDOFBIT (wwvb_setup cfg s) = (if attiny cfg \<or> F_CPU cfg = 16000000 then 60606 else 60150)"
  "pulse_width (wwvb_setup cfg s) 0 = WWVB_LOW (wwvb_setup cfg s)"
  "pulse_width (wwvb_setup cfg s) 1 = WWVB_MARKER (wwvb_setup cfg s)"
  "pulse_width (wwvb_setup cfg s) (Suc 0) = WWVB_MARKER (wwvb_setup cfg s)"
  "pulse_width (wwvb_setup cfg s) 2 = pulse_width s 2"
  "frame_index (wwvb_setup cfg s) = 0" "isr_count (wwvb_setup cfg s) = 0"
  "WWVB_LOWTIME (wwvb_setup cfg s) = WWVB_LOW (wwvb_setup cfg s)"
  "OCR1 (wwvb_setup cfg s) = PWM_LOW (wwvb_setup cfg s)"
  "MINS (wwvb_setup cfg s) = MINS s" "HOUR (wwvb_setup cfg s) = HOUR s"
  "DOTY (wwvb_setup cfg s) = DOTY s" "MISC (wwvb_setup cfg s) = MISC s"
  "DUT1 (wwvb_setup cfg s) = (DUT1 s)(7 := True)"
  "YEAR (wwvb_setup cfg s) = (YEAR s)(0 := False, 1 := False, 2 := False, 3 := False)"
  "is_leap_year_st (wwvb_setup cfg s) = is_leap_year_st s"
  "daylight_savings_st (wwvb_setup cfg s) = daylight_savings_st s"
  "get_time (wwvb_setup cfg s) = get_time s" "doty_st (wwvb_setup cfg s) = doty_st s"
  by (cases cfg rule: config_cases;
      simp add: wwvb_setup_def set_dut1_def Let_def get_time_def)+

text \<open>
  The thresholds themselves are the documented fractions of the end-of-bit count, to within
  a tick.
\<close>

lemma threshold_fractions:
  "\<bar>5 * uint (WWVB_LOW (wwvb_setup cfg s)) - uint (WWVB_ENDOFBIT (wwvb_setup cfg s))\<bar> \<le> 1"
  "2 * uint (WWVB_HIGH (wwvb_setup cfg s)) = uint (WWVB_ENDOFBIT (wwvb_setup cfg s))"
  "\<bar>5 * uint (WWVB_MARKER (wwvb_setup cfg s)) - 4 * uint (WWVB_ENDOFBIT (wwvb_setup cfg s))\<bar> \<le> 1"
  by (simp_all add: setup_thresholds)

text \<open>
  The end-of-bit count is not the number of ticks in a second at the tick rate of the
  configuration: 60606 ticks at 60150 Hz on the ATtiny and at 16 MHz, 60150 ticks at
  59701 Hz at 8 MHz.
\<close>

lemma endofbit_vs_carrier:
  "attiny cfg \<or> F_CPU cfg = 16000000 \<Longrightarrow>
     unat (WWVB_ENDOFBIT (wwvb_setup cfg s)) = 60606 \<and> carrier_hz cfg = 60150"
  "\<not> attiny cfg \<Longrightarrow> F_CPU cfg = 8000000 \<Longrightarrow>
     unat (WWVB_ENDOFBIT (wwvb_setup cfg s)) = 60150 \<and> carrier_hz cfg = 59701"
  by (auto simp: setup_thresholds carrier_hz_def)

section \<open>Selecting the symbol\<close>

lemma frame_bit_cong:
  "frame_index a = frame_index b \<Longrightarrow> MINS a = MINS b \<Longrightarrow> HOUR a = HOUR b \<Longrightarrow> DOTY a = DOTY b
   \<Longrightarrow> DUT1 a = DUT1 b \<Longrightarrow> YEAR a = YEAR b \<Longrightarrow> MISC a = MISC b \<Longrightarrow> frame_bit a = frame_bit b"
  by (simp add: frame_bit_def)

lemma set_lowTime_selects:
  "frame_index s < 60 \<Longrightarrow>
   WWVB_LOWTIME (set_lowTime s) =
     (if is_marker (frame_index s) then WWVB_MARKER s
      else pulse_width s (bit_index (frame_bit s)))"
  by (simp add: set_lowTime_def Let_def frame_bit_def word_less_nat_alt unat_mod)

lemma succ_is_60: "(f + 1 = (60 :: u8)) = (f = 59)"
  by auto


lemma rolled_no_rollover:
  "frame_index s \<noteq> 59 \<Longrightarrow>
   rolled cal s = s\<lparr>OCR1 := PWM_LOW s, frame_index := frame_index s + 1,
                     subframe_index := (frame_index s + 1) mod 10\<rparr>"
  by (simp add: rolled_def Let_def succ_is_60)


lemma end_of_bit_selects:
  assumes "frame_index s < 60"
  shows "WWVB_LOWTIME (end_of_bit cal s) =
     (if is_marker (frame_index (end_of_bit cal s)) then WWVB_MARKER (end_of_bit cal s)
      else pulse_width (end_of_bit cal s) (bit_index (frame_bit (end_of_bit cal s))))"
proof -
  let ?r = "rolled cal s"
  have r: "frame_index ?r < 60" using assms by (simp add: next_index_less)
  have b: "frame_bit (end_of_bit cal s) = frame_bit ?r"
    by (rule frame_bit_cong) (simp_all add: end_of_bit_rolled)
  have "WWVB_LOWTIME (end_of_bit cal s) = WWVB_LOWTIME (set_lowTime ?r)"
    by (simp add: end_of_bit_rolled)
  also have "\<dots> = (if is_marker (frame_index ?r) then WWVB_MARKER ?r
      else pulse_width ?r (bit_index (frame_bit ?r)))"
    by (rule set_lowTime_selects [OF r])
  finally show ?thesis by (simp add: b)
qed

lemma end_of_bit_no_rollover:
  assumes "frame_index s \<noteq> 59"
  shows "MINS (end_of_bit cal s) = MINS s" "HOUR (end_of_bit cal s) = HOUR s"
    "DOTY (end_of_bit cal s) = DOTY s" "DUT1 (end_of_bit cal s) = DUT1 s"
    "YEAR (end_of_bit cal s) = YEAR s" "MISC (end_of_bit cal s) = MISC s"
    "get_time (end_of_bit cal s) = get_time s" "doty_st (end_of_bit cal s) = doty_st s"
  by (simp_all add: end_of_bit_rolled rolled_no_rollover [OF assms] get_time_def set_lowTime_def
        Let_def)

section \<open>The duration of a HIGH symbol\<close>

text \<open>
  Claim C1 (the code departs from it). After construction, \<open>setup\<close> and \<open>start\<close>, the
  first bit-second ends with the frame index at 1, where the minute subframe holds a 1.
  The threshold selected for that HIGH symbol is \<open>pulse_width[1]\<close>, which \<open>setup\<close> has
  overwritten with the MARKER count: 80% of the end-of-bit count, not the 50% of
  \<open>WWVB_HIGH\<close>.
\<close>

theorem high_symbol_gets_marker_threshold:
  "(let s = end_of_bit cal (start (wwvb_setup cfg (construct g)))
    in frame_index s = 1 \<and> frame_bit s
       \<and> WWVB_LOWTIME s = pulse_width s (bit_index (frame_bit s))
       \<and> WWVB_LOWTIME s = WWVB_MARKER s \<and> WWVB_LOWTIME s \<noteq> WWVB_HIGH s
       \<and> \<bar>5 * uint (WWVB_LOWTIME s) - 4 * uint (WWVB_ENDOFBIT s)\<bar> \<le> 1)"
proof -
  let ?a = "start (wwvb_setup cfg (construct g))"
  let ?b = "end_of_bit cal ?a"
  have f0: "frame_index ?a = 0" by simp
  then have n: "frame_index ?a \<noteq> 59" and l: "frame_index ?a < 60" by simp_all
  have f: "frame_index ?b = 1" by (simp add: next_index_def)
  have m: "MINS ?b 1"
    by (simp only: end_of_bit_no_rollover [OF n])
       (simp add: setup_thresholds construct_def cells_def)
  have b: "frame_bit ?b" unfolding frame_bit_def f using m by simp
  have sel: "WWVB_LOWTIME ?b = pulse_width ?b (bit_index (frame_bit ?b))"
    using end_of_bit_selects [OF l, of cal] by (simp add: is_marker_def next_index_def)
  have mk: "WWVB_LOWTIME ?b = WWVB_MARKER ?b"
    by (simp only: sel b) (simp add: bit_index_def setup_thresholds)
  have ne: "WWVB_MARKER ?b \<noteq> WWVB_HIGH ?b"
    by (simp add: setup_thresholds)
  have fr: "\<bar>5 * uint (WWVB_MARKER ?b) - 4 * uint (WWVB_ENDOFBIT ?b)\<bar> \<le> 1"
    by (simp add: setup_thresholds)
  show ?thesis
    unfolding Let_def using f b sel mk ne fr by (simp only: simp_thms)
qed

section \<open>The setters as conditional encoders\<close>

lemma set_mins_eq:
  "set_mins v s = (if mins_st s = v then s
                   else s\<lparr>mins_st := v, MINS := encode_mins v (MINS s)\<rparr>)"
  by (simp add: set_mins_same set_mins_enc encode_mins_def Let_def)

lemma set_hour_eq:
  "set_hour v s = (if hour_st s = v then s
                   else s\<lparr>hour_st := v, HOUR := encode_hour v (HOUR s)\<rparr>)"
  by (simp add: set_hour_same set_hour_enc encode_hour_def Let_def)

lemma set_doty_eq:
  "set_doty v s = (if doty_st s = v then s
                   else s\<lparr>doty_st := v, DOTY := encode_doty_DOTY v (DOTY s),
                          DUT1 := encode_doty_DUT1 v (DUT1 s)\<rparr>)"
  by (simp add: set_doty_same set_doty_enc encode_doty_DOTY_def encode_doty_DUT1_def Let_def)

lemma set_year_eq:
  "set_year v s = (if YY_st s = v then s
                   else s\<lparr>YY_st := v, YEAR := encode_year_YEAR v (YEAR s),
                          MISC := encode_year_MISC v (MISC s)\<rparr>)"
  by (simp add: set_year_same set_year_enc encode_year_YEAR_def encode_year_MISC_def Let_def)

lemma set_misc_eq:
  "set_misc ly dst s =
     s\<lparr>is_leap_year_st := ly, daylight_savings_st := dst,
       MISC := (let M = (if is_leap_year_st s = ly then MISC s else (MISC s)(5 := ly))
                in if daylight_savings_st s = dst then M else encode_dst dst M)\<rparr>"
  by (simp add: set_misc_def encode_dst_def Let_def)

lemmas setters_eq = set_mins_eq set_hour_eq set_doty_eq set_year_eq set_misc_eq
  set_day_def set_month_def

lemma set_mins_others [simp]:
  "HOUR (set_mins v s) = HOUR s" "DOTY (set_mins v s) = DOTY s"
  "DUT1 (set_mins v s) = DUT1 s" "YEAR (set_mins v s) = YEAR s"
  "MISC (set_mins v s) = MISC s" "t_ss (set_mins v s) = t_ss s"
  "t_mm (set_mins v s) = t_mm s" "t_hh (set_mins v s) = t_hh s"
  "t_DD (set_mins v s) = t_DD s" "t_MM (set_mins v s) = t_MM s"
  "t_YY (set_mins v s) = t_YY s" "hour_st (set_mins v s) = hour_st s"
  "DD_st (set_mins v s) = DD_st s" "MM_st (set_mins v s) = MM_st s"
  "YY_st (set_mins v s) = YY_st s" "doty_st (set_mins v s) = doty_st s"
  "is_leap_year_st (set_mins v s) = is_leap_year_st s" "daylight_savings_st (set_mins v s) = daylight_savings_st s"
  by (simp_all add: setters_eq)

lemma set_hour_others [simp]:
  "MINS (set_hour v s) = MINS s" "DOTY (set_hour v s) = DOTY s"
  "DUT1 (set_hour v s) = DUT1 s" "YEAR (set_hour v s) = YEAR s"
  "MISC (set_hour v s) = MISC s" "t_ss (set_hour v s) = t_ss s"
  "t_mm (set_hour v s) = t_mm s" "t_hh (set_hour v s) = t_hh s"
  "t_DD (set_hour v s) = t_DD s" "t_MM (set_hour v s) = t_MM s"
  "t_YY (set_hour v s) = t_YY s" "mins_st (set_hour v s) = mins_st s"
  "DD_st (set_hour v s) = DD_st s" "MM_st (set_hour v s) = MM_st s"
  "YY_st (set_hour v s) = YY_st s" "doty_st (set_hour v s) = doty_st s"
  "is_leap_year_st (set_hour v s) = is_leap_year_st s" "daylight_savings_st (set_hour v s) = daylight_savings_st s"
  by (simp_all add: setters_eq)

lemma set_day_others [simp]:
  "MINS (set_day v s) = MINS s" "HOUR (set_day v s) = HOUR s"
  "DOTY (set_day v s) = DOTY s" "DUT1 (set_day v s) = DUT1 s"
  "YEAR (set_day v s) = YEAR s" "MISC (set_day v s) = MISC s"
  "t_ss (set_day v s) = t_ss s" "t_mm (set_day v s) = t_mm s"
  "t_hh (set_day v s) = t_hh s" "t_DD (set_day v s) = t_DD s"
  "t_MM (set_day v s) = t_MM s" "t_YY (set_day v s) = t_YY s"
  "mins_st (set_day v s) = mins_st s" "hour_st (set_day v s) = hour_st s"
  "MM_st (set_day v s) = MM_st s" "YY_st (set_day v s) = YY_st s"
  "doty_st (set_day v s) = doty_st s" "is_leap_year_st (set_day v s) = is_leap_year_st s"
  "daylight_savings_st (set_day v s) = daylight_savings_st s"
  by (simp_all add: setters_eq)

lemma set_month_others [simp]:
  "MINS (set_month v s) = MINS s" "HOUR (set_month v s) = HOUR s"
  "DOTY (set_month v s) = DOTY s" "DUT1 (set_month v s) = DUT1 s"
  "YEAR (set_month v s) = YEAR s" "MISC (set_month v s) = MISC s"
  "t_ss (set_month v s) = t_ss s" "t_mm (set_month v s) = t_mm s"
  "t_hh (set_month v s) = t_hh s" "t_DD (set_month v s) = t_DD s"
  "t_MM (set_month v s) = t_MM s" "t_YY (set_month v s) = t_YY s"
  "mins_st (set_month v s) = mins_st s" "hour_st (set_month v s) = hour_st s"
  "DD_st (set_month v s) = DD_st s" "YY_st (set_month v s) = YY_st s"
  "doty_st (set_month v s) = doty_st s" "is_leap_year_st (set_month v s) = is_leap_year_st s"
  "daylight_savings_st (set_month v s) = daylight_savings_st s"
  by (simp_all add: setters_eq)

lemma set_doty_others [simp]:
  "MINS (set_doty v s) = MINS s" "HOUR (set_doty v s) = HOUR s"
  "YEAR (set_doty v s) = YEAR s" "MISC (set_doty v s) = MISC s"
  "t_ss (set_doty v s) = t_ss s" "t_mm (set_doty v s) = t_mm s"
  "t_hh (set_doty v s) = t_hh s" "t_DD (set_doty v s) = t_DD s"
  "t_MM (set_doty v s) = t_MM s" "t_YY (set_doty v s) = t_YY s"
  "mins_st (set_doty v s) = mins_st s" "hour_st (set_doty v s) = hour_st s"
  "DD_st (set_doty v s) = DD_st s" "MM_st (set_doty v s) = MM_st s"
  "YY_st (set_doty v s) = YY_st s" "is_leap_year_st (set_doty v s) = is_leap_year_st s"
  "daylight_savings_st (set_doty v s) = daylight_savings_st s"
  by (simp_all add: setters_eq)

lemma set_year_others [simp]:
  "MINS (set_year v s) = MINS s" "HOUR (set_year v s) = HOUR s"
  "DOTY (set_year v s) = DOTY s" "DUT1 (set_year v s) = DUT1 s"
  "t_ss (set_year v s) = t_ss s" "t_mm (set_year v s) = t_mm s"
  "t_hh (set_year v s) = t_hh s" "t_DD (set_year v s) = t_DD s"
  "t_MM (set_year v s) = t_MM s" "t_YY (set_year v s) = t_YY s"
  "mins_st (set_year v s) = mins_st s" "hour_st (set_year v s) = hour_st s"
  "DD_st (set_year v s) = DD_st s" "MM_st (set_year v s) = MM_st s"
  "doty_st (set_year v s) = doty_st s" "is_leap_year_st (set_year v s) = is_leap_year_st s"
  "daylight_savings_st (set_year v s) = daylight_savings_st s"
  by (simp_all add: setters_eq)

lemma set_misc_others [simp]:
  "MINS (set_misc ly dst s) = MINS s" "HOUR (set_misc ly dst s) = HOUR s"
  "DOTY (set_misc ly dst s) = DOTY s" "DUT1 (set_misc ly dst s) = DUT1 s"
  "YEAR (set_misc ly dst s) = YEAR s" "t_ss (set_misc ly dst s) = t_ss s"
  "t_mm (set_misc ly dst s) = t_mm s" "t_hh (set_misc ly dst s) = t_hh s"
  "t_DD (set_misc ly dst s) = t_DD s" "t_MM (set_misc ly dst s) = t_MM s"
  "t_YY (set_misc ly dst s) = t_YY s" "mins_st (set_misc ly dst s) = mins_st s"
  "hour_st (set_misc ly dst s) = hour_st s" "DD_st (set_misc ly dst s) = DD_st s"
  "MM_st (set_misc ly dst s) = MM_st s" "YY_st (set_misc ly dst s) = YY_st s"
  "doty_st (set_misc ly dst s) = doty_st s"
  by (simp_all add: setters_eq)

lemma setters_stored [simp]:
  "mins_st (set_mins v s) = v" "hour_st (set_hour v s) = v" "DD_st (set_day v s) = v"
  "MM_st (set_month v s) = v" "doty_st (set_doty w s) = w" "YY_st (set_year v s) = v"
  "is_leap_year_st (set_misc ly dst s) = ly" "daylight_savings_st (set_misc ly dst s) = dst"
  by (simp_all add: setters_eq)

lemma setters_cells:
  "MINS (set_mins v s) = (if mins_st s = v then MINS s else encode_mins v (MINS s))"
  "HOUR (set_hour v s) = (if hour_st s = v then HOUR s else encode_hour v (HOUR s))"
  "DOTY (set_doty w s) = (if doty_st s = w then DOTY s else encode_doty_DOTY w (DOTY s))"
  "DUT1 (set_doty w s) = (if doty_st s = w then DUT1 s else encode_doty_DUT1 w (DUT1 s))"
  "YEAR (set_year v s) = (if YY_st s = v then YEAR s else encode_year_YEAR v (YEAR s))"
  "MISC (set_year v s) = (if YY_st s = v then MISC s else encode_year_MISC v (MISC s))"
  "MISC (set_misc ly dst s) =
     (let M = (if is_leap_year_st s = ly then MISC s else (MISC s)(5 := ly))
      in if daylight_savings_st s = dst then M else encode_dst dst M)"
  by (simp_all add: setters_eq)

section \<open>The effect of the private \<open>set_time\<close>\<close>

lemma set_time_priv_stored:
  "mins_st (set_time_priv cal dst s) = t_mm s" "hour_st (set_time_priv cal dst s) = t_hh s"
  "DD_st (set_time_priv cal dst s) = t_DD s" "MM_st (set_time_priv cal dst s) = t_MM s"
  "YY_st (set_time_priv cal dst s) = t_YY s"
  "doty_st (set_time_priv cal dst s)
     = to_day_of_the_year cal (t_DD s) (t_MM s) (is_leap_year cal (2000 + uint (t_YY s)))"
  "is_leap_year_st (set_time_priv cal dst s) = is_leap_year cal (2000 + uint (t_YY s))"
  "daylight_savings_st (set_time_priv cal dst s) = dst"
  by (simp_all add: set_time_priv_def Let_def)

lemma set_time_priv_temps [simp]:
  "t_ss (set_time_priv cal dst s) = t_ss s" "t_mm (set_time_priv cal dst s) = t_mm s"
  "t_hh (set_time_priv cal dst s) = t_hh s" "t_DD (set_time_priv cal dst s) = t_DD s"
  "t_MM (set_time_priv cal dst s) = t_MM s" "t_YY (set_time_priv cal dst s) = t_YY s"
  by (simp_all add: set_time_priv_def Let_def)

lemma set_time_priv_cells:
  "MINS (set_time_priv cal dst s) = MINS (set_mins (t_mm s) s)"
  "HOUR (set_time_priv cal dst s) = HOUR (set_hour (t_hh s) s)"
  "DOTY (set_time_priv cal dst s)
     = DOTY (set_doty (to_day_of_the_year cal (t_DD s) (t_MM s)
                         (is_leap_year cal (2000 + uint (t_YY s)))) s)"
  "DUT1 (set_time_priv cal dst s)
     = DUT1 (set_doty (to_day_of_the_year cal (t_DD s) (t_MM s)
                         (is_leap_year cal (2000 + uint (t_YY s)))) s)"
  "YEAR (set_time_priv cal dst s) = YEAR (set_year (t_YY s) s)"
  "MISC (set_time_priv cal dst s)
     = MISC (set_misc (is_leap_year cal (2000 + uint (t_YY s))) dst (set_year (t_YY s) s))"
  by (simp_all add: set_time_priv_def Let_def setters_cells)

section \<open>The effect of the public time updates\<close>

lemma store_temps_fields [simp]:
  "t_ss (store_temps (ss, mm, hh, d, m, y) s) = ss" "t_mm (store_temps (ss, mm, hh, d, m, y) s) = mm"
  "t_hh (store_temps (ss, mm, hh, d, m, y) s) = hh" "t_DD (store_temps (ss, mm, hh, d, m, y) s) = d"
  "t_MM (store_temps (ss, mm, hh, d, m, y) s) = m" "t_YY (store_temps (ss, mm, hh, d, m, y) s) = y"
  "mins_st (store_temps r s) = mins_st s" "hour_st (store_temps r s) = hour_st s"
  "DD_st (store_temps r s) = DD_st s" "MM_st (store_temps r s) = MM_st s"
  "YY_st (store_temps r s) = YY_st s" "doty_st (store_temps r s) = doty_st s"
  "is_leap_year_st (store_temps r s) = is_leap_year_st s"
  "daylight_savings_st (store_temps r s) = daylight_savings_st s"
  "MINS (store_temps r s) = MINS s" "HOUR (store_temps r s) = HOUR s"
  "DOTY (store_temps r s) = DOTY s" "DUT1 (store_temps r s) = DUT1 s"
  "YEAR (store_temps r s) = YEAR s" "MISC (store_temps r s) = MISC s"
  by (simp_all add: store_temps_def split: prod.splits)

text \<open>Encoding a time \<open>r\<close> that has been stored into the temporaries.\<close>

lemma encode_stored:
  "get_time (set_time_priv cal dst (store_temps (ss, mm, hh, d, m, y) s)) = (mm, hh, d, m, y)"
  "doty_st (set_time_priv cal dst (store_temps (ss, mm, hh, d, m, y) s))
     = to_day_of_the_year cal d m (is_leap_year cal (2000 + uint y))"
  "is_leap_year_st (set_time_priv cal dst (store_temps (ss, mm, hh, d, m, y) s)) = is_leap_year cal (2000 + uint y)"
  "daylight_savings_st (set_time_priv cal dst (store_temps (ss, mm, hh, d, m, y) s)) = dst"
  "MINS (set_time_priv cal dst (store_temps (ss, mm, hh, d, m, y) s))
     = (if mins_st s = mm then MINS s else encode_mins mm (MINS s))"
  "HOUR (set_time_priv cal dst (store_temps (ss, mm, hh, d, m, y) s))
     = (if hour_st s = hh then HOUR s else encode_hour hh (HOUR s))"
  "DOTY (set_time_priv cal dst (store_temps (ss, mm, hh, d, m, y) s))
     = (let n = to_day_of_the_year cal d m (is_leap_year cal (2000 + uint y))
        in if doty_st s = n then DOTY s else encode_doty_DOTY n (DOTY s))"
  "DUT1 (set_time_priv cal dst (store_temps (ss, mm, hh, d, m, y) s))
     = (let n = to_day_of_the_year cal d m (is_leap_year cal (2000 + uint y))
        in if doty_st s = n then DUT1 s else encode_doty_DUT1 n (DUT1 s))"
  "YEAR (set_time_priv cal dst (store_temps (ss, mm, hh, d, m, y) s))
     = (if YY_st s = y then YEAR s else encode_year_YEAR y (YEAR s))"
  "MISC (set_time_priv cal dst (store_temps (ss, mm, hh, d, m, y) s))
     = (let ly = is_leap_year cal (2000 + uint y);
            M = (if YY_st s = y then MISC s else encode_year_MISC y (MISC s));
            M = (if is_leap_year_st s = ly then M else M(5 := ly))
        in if daylight_savings_st s = dst then M else encode_dst dst M)"
  by (simp_all add: get_time_def set_time_priv_stored set_time_priv_cells setters_cells Let_def)

lemma set_time_eq:
  "set_time cal mi hr dd mo yy dst s =
     set_time_priv cal dst
       (store_temps (addTimezone cal (t_ss s, mi, hr, dd, mo, yy) 0 1 0)
          (s\<lparr>t_mm := mi, t_hh := hr, t_DD := dd, t_MM := mo, t_YY := yy\<rparr>))"
  by (simp add: set_time_def Let_def)


section \<open>The calendar of the specification\<close>

lemma TimeDateTools_simps [simp]:
  "is_leap_year TimeDateTools = leap_year"
  "to_day_of_the_year TimeDateTools d m ly = of_nat (day_of_the_year (unat d) (unat m) ly)"
  "addTimezone TimeDateTools (ss, mi, hr, d, m, y) oh om os =
     (case add_hours_minutes (unat oh) (unat om) (unat mi, unat hr, unat d, unat m, unat y) of
        (mi', hr', d', m', y') \<Rightarrow> (ss, of_nat mi', of_nat hr', of_nat d', of_nat m', of_nat y'))"
  by (simp_all add: TimeDateTools_def)

lemma add_one_minute:
  assumes "valid_time t"
  shows "add_hours_minutes 0 1 t = plus_one_minute t"
proof -
  obtain mi hr d m y where t: "t = (mi, hr, d, m, y)" by (cases t) auto
  have v: "mi < 60" "hr < 24" using assms by (simp_all add: valid_time_def t)
  then consider "mi < 59" | "mi = 59" "hr < 23" | "mi = 59" "hr = 23" by linarith
  then show ?thesis
  proof cases
    case 1
    with v show ?thesis
      by (simp add: t add_hours_minutes_def plus_one_minute_def Let_def)
  next
    case 2
    then show ?thesis
      by (simp add: t add_hours_minutes_def plus_one_minute_def Let_def)
  next
    case 3
    then show ?thesis
      by (simp add: t add_hours_minutes_def plus_one_minute_def next_day_def Let_def)
  qed
qed

section \<open>Setting the time with the calendar of the specification\<close>

lemma plus_one_minute_bounds:
  assumes "valid_time t" and "plus_one_minute t = (mi', hr', d', m', y')"
  shows "mi' < 60" "hr' < 24" "1 \<le> d'" "d' \<le> 31" "1 \<le> m'" "m' \<le> 12" "y' \<le> 100"
proof -
  obtain mi hr d m y where t: "t = (mi, hr, d, m, y)" by (cases t) auto
  have d: "days_in_month ly k \<le> 31" for ly k by (simp add: days_in_month_def)
  have v: "mi < 60" "hr < 24" "1 \<le> m" "m \<le> 12" "1 \<le> d"
    "d \<le> days_in_month (leap_year (2000 + int y)) m" "y < 100"
    using assms(1) by (simp_all add: valid_time_def t)
  have d31: "d \<le> 31" using v(6) d [of "leap_year (2000 + int y)" m] by linarith
  have r: "(mi', hr', d', m', y') =
        (if mi < 59 then (mi + 1, hr, d, m, y)
        else if hr < 23 then (0, hr + 1, d, m, y)
        else if d < days_in_month (leap_year (2000 + int y)) m then (0, 0, d + 1, m, y)
        else if m < 12 then (0, 0, 1, m + 1, y)
        else (0, 0, 1, 1, y + 1))"
    using assms(2) by (simp add: plus_one_minute_def t)
  have d32: "d < days_in_month (leap_year (2000 + int y)) m \<Longrightarrow> d + 1 \<le> 31"
    using d [of "leap_year (2000 + int y)" m] by linarith
  show "mi' < 60" "hr' < 24" "1 \<le> d'" "d' \<le> 31" "1 \<le> m'" "m' \<le> 12" "y' \<le> 100"
    using r v d31 d32 by (auto split: if_splits)
qed

lemma set_time_TimeDateTools:
  assumes "valid_time (unat mi, unat hr, unat dd, unat mo, unat yy)"
    and "plus_one_minute (unat mi, unat hr, unat dd, unat mo, unat yy) = (mi', hr', d', m', y')"
  shows "set_time TimeDateTools mi hr dd mo yy dst s =
     set_time_priv TimeDateTools dst
       (store_temps (t_ss s, of_nat mi', of_nat hr', of_nat d', of_nat m', of_nat y')
          (s\<lparr>t_mm := mi, t_hh := hr, t_DD := dd, t_MM := mo, t_YY := yy\<rparr>))"
  using add_one_minute [OF assms(1)] assms(2) by (simp add: set_time_eq)


section \<open>The leap-second warning bit\<close>

text \<open>
  Claim C3 (the code departs from it). Position 6 of \<open>MISC\<close> is initialised to 1 and no
  operation writes it: it is 1 after construction, after \<open>setup\<close>, and after every time
  update and tick that follows.
\<close>

theorem leap_second_warning_bit_set:
  "MISC (construct g) 6
   \<and> MISC (wwvb_setup cfg (construct g)) 6
   \<and> MISC (set_time cal mi hr dd mo yy dst (wwvb_setup cfg (construct g))) 6
   \<and> MISC (add_time cal m h (set_time cal mi hr dd mo yy dst (wwvb_setup cfg (construct g)))) 6
   \<and> MISC (interrupt_routine cal
              (start (set_time cal mi hr dd mo yy dst (wwvb_setup cfg (construct g))))) 6"
proof -
  have c: "MISC (construct g) 6" by (simp add: construct_def cells_def)
  then have s: "MISC (wwvb_setup cfg (construct g)) 6" by (simp only: setup_thresholds)
  show ?thesis
    using c s by (simp add: set_time_cells add_time_cells interrupt_routine_cells)
qed

section \<open>The DUT1 subframe\<close>

text \<open>
  Claim C4, as stated: no bit of the \<open>DUT1\<close> subframe changes with the time. It fails:
  the first four cells of \<open>DUT1\<close> carry the ones digit of the day of the year. Setting
  2 January after 1 January changes cell 3.
\<close>

theorem dut1_subframe_changes:
  "DUT1 (set_time TimeDateTools 0 0 2 1 15 0
           (set_time TimeDateTools 0 0 1 1 15 0 (wwvb_setup tiny85 (construct zeroed)))) 3
   \<noteq> DUT1 (set_time TimeDateTools 0 0 1 1 15 0 (wwvb_setup tiny85 (construct zeroed))) 3"
proof -
  let ?a = "wwvb_setup tiny85 (construct zeroed)"
  let ?b = "set_time TimeDateTools 0 0 1 1 15 0 ?a"
  let ?c = "set_time TimeDateTools 0 0 2 1 15 0 ?b"
  have v: "valid_time (unat (0 :: u8), unat (0 :: u8), unat (1 :: u8), unat (1 :: u8), unat (15 :: u8))"
    "valid_time (unat (0 :: u8), unat (0 :: u8), unat (2 :: u8), unat (1 :: u8), unat (15 :: u8))"
    by (simp_all add: valid_time_def days_in_month_def)
  have p: "plus_one_minute (unat (0 :: u8), unat (0 :: u8), unat (1 :: u8), unat (1 :: u8),
             unat (15 :: u8)) = (1, 0, 1, 1, 15)"
    "plus_one_minute (unat (0 :: u8), unat (0 :: u8), unat (2 :: u8), unat (1 :: u8),
             unat (15 :: u8)) = (1, 0, 2, 1, 15)"
    by (simp_all add: plus_one_minute_def)
  have a: "doty_st ?a = 0" by (simp add: setup_thresholds construct_def zeroed_def)
  have b: "doty_st ?b = 1" "DUT1 ?b 3"
    unfolding set_time_TimeDateTools [OF v(1) p(1)]
    by (simp_all add: encode_stored a day_of_the_year_def encode_doty_DUT1_def ladder_rem_def)
  have c: "\<not> DUT1 ?c 3"
    unfolding set_time_TimeDateTools [OF v(2) p(2)]
    by (simp add: encode_stored b day_of_the_year_def encode_doty_DUT1_def ladder_rem_def)
  from b(2) c show ?thesis by simp
qed

text \<open>
  Claim C4, amended. The sign cells of \<open>DUT1\<close> (4 to 8, with the marker cell 9) and the
  magnitude cells (\<open>YEAR\<close> 0 to 3) are set by construction and \<open>setup\<close> to sign negative
  and magnitude 0, and no time update (\<open>set_time\<close>, \<open>add_time\<close>, a tick of the
  interrupt routine with or without the minute rollover) changes them.
\<close>

theorem dut1_sign_magnitude_constant:
  "map (DUT1 (wwvb_setup cfg (construct g))) [4, 5, 6, 7, 8] = [False, False, False, True, False]
   \<and> map (YEAR (wwvb_setup cfg (construct g))) [0, 1, 2, 3] = [False, False, False, False]
   \<and> map (DUT1 (set_time cal mi hr dd mo yy dst s)) [4, 5, 6, 7, 8, 9] = map (DUT1 s) [4, 5, 6, 7, 8, 9]
   \<and> map (YEAR (set_time cal mi hr dd mo yy dst s)) [0, 1, 2, 3] = map (YEAR s) [0, 1, 2, 3]
   \<and> map (DUT1 (add_time cal m h s)) [4, 5, 6, 7, 8, 9] = map (DUT1 s) [4, 5, 6, 7, 8, 9]
   \<and> map (YEAR (add_time cal m h s)) [0, 1, 2, 3] = map (YEAR s) [0, 1, 2, 3]
   \<and> map (DUT1 (interrupt_routine cal s)) [4, 5, 6, 7, 8, 9] = map (DUT1 s) [4, 5, 6, 7, 8, 9]
   \<and> map (YEAR (interrupt_routine cal s)) [0, 1, 2, 3] = map (YEAR s) [0, 1, 2, 3]"
  by (simp add: setup_thresholds construct_def cells_def set_time_cells add_time_cells
        interrupt_routine_cells)

section \<open>Change detection\<close>

lemma setters_idempotent:
  "set_mins v (set_mins v s) = set_mins v s" "set_hour v (set_hour v s) = set_hour v s"
  "set_doty w (set_doty w s) = set_doty w s" "set_year v (set_year v s) = set_year v s"
  "set_misc ly dst (set_misc ly dst s) = set_misc ly dst s"
  by (simp_all add: set_mins_same set_hour_same set_doty_same set_year_same set_misc_def)

text \<open>
  Where the stored value and the cells agree, the setter writes what the encoder without
  the comparison writes.
\<close>

lemma set_mins_in_sync:
  "MINS s = encode_mins (mins_st s) (MINS s) \<Longrightarrow> MINS (set_mins v s) = encode_mins v (MINS s)"
  by (auto simp: setters_cells)

text \<open>
  Claim C5 (the code departs from it). The bits after a set operation are not a function
  of the value alone. On the object as constructed and set up, the leap-year flag and the
  daylight-savings code are stored as 0 while their cells hold 1: setting (no leap year,
  code 0) is taken for no change and leaves the cells 5, 7 and 8 of \<open>MISC\<close> at 1, where
  the same call after a different value clears them. Through the public setter: 1 January
  2015 with the default code leaves them at 1.
\<close>

theorem change_detection_observable:
  "(let s = wwvb_setup cfg (construct g);
        a = set_misc False 0 s;
        b = set_misc False 0 (set_misc True 3 s);
        c = set_time TimeDateTools 0 0 1 1 15 0 s
    in is_leap_year_st a = is_leap_year_st b \<and> daylight_savings_st a = daylight_savings_st b
       \<and> map (MISC a) [5, 7, 8] = [True, True, True]
       \<and> map (MISC b) [5, 7, 8] = [False, False, False]
       \<and> \<not> is_leap_year_st c \<and> daylight_savings_st c = 0
       \<and> map (MISC c) [5, 7, 8] = [True, True, True])"
proof -
  let ?s = "wwvb_setup cfg (construct g)"
  have s: "is_leap_year_st ?s = False" "daylight_savings_st ?s = 0"
    "MISC ?s 5" "MISC ?s 7" "MISC ?s 8"
    by (simp_all add: setup_thresholds construct_def cells_def)
  have a: "map (MISC (set_misc False 0 ?s)) [5, 7, 8] = [True, True, True]"
    by (simp add: setters_cells s)
  have b: "map (MISC (set_misc False 0 (set_misc True 3 ?s))) [5, 7, 8] = [False, False, False]"
    by (simp add: setters_cells s encode_dst_def)
  have v: "valid_time (unat (0 :: u8), unat (0 :: u8), unat (1 :: u8), unat (1 :: u8), unat (15 :: u8))"
    by (simp add: valid_time_def days_in_month_def)
  have p: "plus_one_minute (unat (0 :: u8), unat (0 :: u8), unat (1 :: u8), unat (1 :: u8),
             unat (15 :: u8)) = (1, 0, 1, 1, 15)"
    by (simp add: plus_one_minute_def)
  have c: "\<not> is_leap_year_st (set_time TimeDateTools 0 0 1 1 15 0 ?s)"
    "daylight_savings_st (set_time TimeDateTools 0 0 1 1 15 0 ?s) = 0"
    "map (MISC (set_time TimeDateTools 0 0 1 1 15 0 ?s)) [5, 7, 8] = [True, True, True]"
    unfolding set_time_TimeDateTools [OF v p]
    by (simp_all add: encode_stored s leap_year_def encode_year_MISC_def Let_def)
  show ?thesis
    unfolding Let_def using a b c by simp
qed

section \<open>Minute, hour and year\<close>

text \<open>
  Claim C2. For a minute below 60, an hour below 24 and a year below 100, when the setter
  encodes the value (the stored value differs), the data cells are the weight ladder of
  the value: minute 40, 20, 10 at \<open>MINS\<close> 1-3 and 8, 4, 2, 1 at \<open>MINS\<close> 5-8; hour 20, 10
  at \<open>HOUR\<close> 2-3 and 8, 4, 2, 1 at \<open>HOUR\<close> 5-8; year 80, 40, 20, 10 at \<open>YEAR\<close> 5-8 and
  8, 4, 2, 1 at \<open>MISC\<close> 0-3. Each group holds the tens or the ones digit. The unused
  cells (\<open>MINS\<close> 4, \<open>HOUR\<close> 0, 1 and 4, \<open>YEAR\<close> 4, \<open>MISC\<close> 4) are 0 in every reachable
  state.
\<close>

theorem bcd_weight_ladders:
  "(unat m < 60 \<and> mins_st s \<noteq> m \<longrightarrow>
      map (MINS (set_mins m s)) [1, 2, 3, 5, 6, 7, 8] = weight_ladder [40, 20, 10, 8, 4, 2] (unat m)
      \<and> ladder_value [4, 2, 1] (map (MINS (set_mins m s)) [1, 2, 3]) = unat m div 10
      \<and> ladder_value [8, 4, 2, 1] (map (MINS (set_mins m s)) [5, 6, 7, 8]) = unat m mod 10)
   \<and> (unat h < 24 \<and> hour_st s \<noteq> h \<longrightarrow>
      map (HOUR (set_hour h s)) [2, 3, 5, 6, 7, 8] = weight_ladder [20, 10, 8, 4, 2] (unat h)
      \<and> ladder_value [2, 1] (map (HOUR (set_hour h s)) [2, 3]) = unat h div 10
      \<and> ladder_value [8, 4, 2, 1] (map (HOUR (set_hour h s)) [5, 6, 7, 8]) = unat h mod 10)
   \<and> (unat y < 100 \<and> YY_st s \<noteq> y \<longrightarrow>
      map (YEAR (set_year y s)) [5, 6, 7, 8] @ map (MISC (set_year y s)) [0, 1, 2, 3]
        = weight_ladder [80, 40, 20, 10, 8, 4, 2] (unat y)
      \<and> ladder_value [8, 4, 2, 1] (map (YEAR (set_year y s)) [5, 6, 7, 8]) = unat y div 10
      \<and> ladder_value [8, 4, 2, 1] (map (MISC (set_year y s)) [0, 1, 2, 3]) = unat y mod 10)
   \<and> (reachable cal cfg s \<longrightarrow>
      \<not> MINS s 4 \<and> \<not> HOUR s 0 \<and> \<not> HOUR s 1 \<and> \<not> HOUR s 4 \<and> \<not> YEAR s 4 \<and> \<not> MISC s 4)"
proof (intro conjI impI)
  assume a: "unat m < 60 \<and> mins_st s \<noteq> m"
  then have n: "mins_st s \<noteq> m" and l: "unat m < 80" by simp_all
  show "map (MINS (set_mins m s)) [1, 2, 3, 5, 6, 7, 8] = weight_ladder [40, 20, 10, 8, 4, 2] (unat m)"
    by (rule set_mins_ladder [OF n])
  show "ladder_value [4, 2, 1] (map (MINS (set_mins m s)) [1, 2, 3]) = unat m div 10"
    by (rule set_mins_digits(1) [OF n l])
  show "ladder_value [8, 4, 2, 1] (map (MINS (set_mins m s)) [5, 6, 7, 8]) = unat m mod 10"
    by (rule set_mins_digits(2) [OF n l])
next
  assume a: "unat h < 24 \<and> hour_st s \<noteq> h"
  then have n: "hour_st s \<noteq> h" and l: "unat h < 40" by simp_all
  show "map (HOUR (set_hour h s)) [2, 3, 5, 6, 7, 8] = weight_ladder [20, 10, 8, 4, 2] (unat h)"
    by (rule set_hour_ladder [OF n])
  show "ladder_value [2, 1] (map (HOUR (set_hour h s)) [2, 3]) = unat h div 10"
    by (rule set_hour_digits(1) [OF n l])
  show "ladder_value [8, 4, 2, 1] (map (HOUR (set_hour h s)) [5, 6, 7, 8]) = unat h mod 10"
    by (rule set_hour_digits(2) [OF n l])
next
  assume a: "unat y < 100 \<and> YY_st s \<noteq> y"
  then have n: "YY_st s \<noteq> y" and l: "unat y < 160" by simp_all
  show "map (YEAR (set_year y s)) [5, 6, 7, 8] @ map (MISC (set_year y s)) [0, 1, 2, 3]
        = weight_ladder [80, 40, 20, 10, 8, 4, 2] (unat y)"
    by (rule set_year_ladder [OF n])
  show "ladder_value [8, 4, 2, 1] (map (YEAR (set_year y s)) [5, 6, 7, 8]) = unat y div 10"
    by (rule set_year_digits(1) [OF n l])
  show "ladder_value [8, 4, 2, 1] (map (MISC (set_year y s)) [0, 1, 2, 3]) = unat y mod 10"
    by (rule set_year_digits(2) [OF n l])
next
  assume "reachable cal cfg s"
  then have f: "fixed_cells_ok s" by (rule reachable_fixed_cells_ok)
  then show "\<not> MINS s 4" "\<not> HOUR s 0" "\<not> HOUR s 1" "\<not> HOUR s 4" "\<not> YEAR s 4" "\<not> MISC s 4"
    by (simp_all add: fixed_cells_ok_def)
qed

theorem bcd_weight_ladders_witness:
  "unat (37 :: u8) < 60 \<and> mins_st (wwvb_setup tiny85 (construct zeroed)) \<noteq> 37
   \<and> map (MINS (set_mins 37 (wwvb_setup tiny85 (construct zeroed)))) [1, 2, 3, 5, 6, 7, 8]
       = [False, True, True, False, True, True, True]
   \<and> unat (23 :: u8) < 24 \<and> hour_st (wwvb_setup tiny85 (construct zeroed)) \<noteq> 23
   \<and> map (HOUR (set_hour 23 (wwvb_setup tiny85 (construct zeroed)))) [2, 3, 5, 6, 7, 8]
       = [True, False, False, False, True, True]
   \<and> unat (99 :: u8) < 100 \<and> YY_st (wwvb_setup tiny85 (construct zeroed)) \<noteq> 99
   \<and> map (YEAR (set_year 99 (wwvb_setup tiny85 (construct zeroed)))) [5, 6, 7, 8]
       @ map (MISC (set_year 99 (wwvb_setup tiny85 (construct zeroed)))) [0, 1, 2, 3]
       = [True, False, False, True, True, False, False, True]
   \<and> reachable TimeDateTools tiny85 (wwvb_setup tiny85 (construct zeroed))
   \<and> \<not> HOUR (wwvb_setup tiny85 (construct zeroed)) 0
   \<and> \<not> HOUR (wwvb_setup tiny85 (construct zeroed)) 1"
proof -
  let ?s = "wwvb_setup tiny85 (construct zeroed)"
  have r: "reachable TimeDateTools tiny85 ?s" by (rule reachable.r_setup)
  have f: "mins_st ?s = 0" "hour_st ?s = 0" "YY_st ?s = 0"
    using setup_thresholds(21) [of tiny85 "construct zeroed"]
    by (simp_all add: get_time_def construct_def zeroed_def)
  show ?thesis
    using bcd_weight_ladders [where m = 37 and h = 23 and y = 99 and s = ?s
        and cal = TimeDateTools and cfg = tiny85] r f
    by simp
qed

section \<open>The frame index\<close>



section \<open>The ticks of one bit-second\<close>



lemma unat_of_nat_u16: "n < 65536 \<Longrightarrow> unat (of_nat n :: u16) = n"
  by (simp add: unat_of_nat)






section \<open>Subframes in step with the stored time\<close>

text \<open>
  A setter leaves the data cells holding the weight ladder of the value it stores, when
  it encodes (the stored value differs) or when the cells held the ladder of the stored
  value before.
\<close>

lemma set_mins_sync:
  assumes "mins_st s \<noteq> v
     \<or> map (MINS s) [1, 2, 3, 5, 6, 7, 8] = weight_ladder [40, 20, 10, 8, 4, 2] (unat (mins_st s))"
  shows "map (MINS (set_mins v s)) [1, 2, 3, 5, 6, 7, 8] = weight_ladder [40, 20, 10, 8, 4, 2] (unat v)"
proof (cases "mins_st s = v")
  case True
  with assms show ?thesis by (simp only: set_mins_same [OF True]) simp
next
  case False
  then show ?thesis by (rule set_mins_ladder)
qed

lemma set_hour_sync:
  assumes "hour_st s \<noteq> v
     \<or> map (HOUR s) [2, 3, 5, 6, 7, 8] = weight_ladder [20, 10, 8, 4, 2] (unat (hour_st s))"
  shows "map (HOUR (set_hour v s)) [2, 3, 5, 6, 7, 8] = weight_ladder [20, 10, 8, 4, 2] (unat v)"
proof (cases "hour_st s = v")
  case True
  with assms show ?thesis by (simp only: set_hour_same [OF True]) simp
next
  case False
  then show ?thesis by (rule set_hour_ladder)
qed

lemma set_doty_sync:
  assumes "doty_st s \<noteq> v
     \<or> map (DOTY s) [2, 3, 5, 6, 7, 8] @ map (DUT1 s) [0, 1, 2, 3]
         = weight_ladder [200, 100, 80, 40, 20, 10, 8, 4, 2] (unat (doty_st s))"
  shows "map (DOTY (set_doty v s)) [2, 3, 5, 6, 7, 8] @ map (DUT1 (set_doty v s)) [0, 1, 2, 3]
         = weight_ladder [200, 100, 80, 40, 20, 10, 8, 4, 2] (unat v)"
proof (cases "doty_st s = v")
  case True
  with assms show ?thesis by (simp only: set_doty_same [OF True]) simp
next
  case False
  then show ?thesis by (rule set_doty_ladder)
qed

lemma set_year_sync:
  assumes "YY_st s \<noteq> v
     \<or> map (YEAR s) [5, 6, 7, 8] @ map (MISC s) [0, 1, 2, 3]
         = weight_ladder [80, 40, 20, 10, 8, 4, 2] (unat (YY_st s))"
  shows "map (YEAR (set_year v s)) [5, 6, 7, 8] @ map (MISC (set_year v s)) [0, 1, 2, 3]
         = weight_ladder [80, 40, 20, 10, 8, 4, 2] (unat v)"
proof (cases "YY_st s = v")
  case True
  with assms show ?thesis by (simp only: set_year_same [OF True]) simp
next
  case False
  then show ?thesis by (rule set_year_ladder)
qed

lemma set_misc_low_cells:
  "map (MISC (set_misc ly dst s)) [0, 1, 2, 3] = map (MISC s) [0, 1, 2, 3]"
  "MISC (set_misc ly dst s) 5 = (if is_leap_year_st s = ly then MISC s 5 else ly)"
  by (simp_all add: setters_cells encode_dst_def Let_def)

lemma set_year_leap_cell: "MISC (set_year v s) 5 = MISC s 5"
  by (simp add: setters_cells encode_year_MISC_def Let_def)

text \<open>The same for the private \<open>set_time\<close>, which runs all the setters.\<close>

lemma set_time_priv_sync:
  assumes a: "a = set_time_priv cal dst s"
  shows "mins_st s \<noteq> mins_st a
          \<or> map (MINS s) [1, 2, 3, 5, 6, 7, 8]
              = weight_ladder [40, 20, 10, 8, 4, 2] (unat (mins_st s))
         \<Longrightarrow> map (MINS a) [1, 2, 3, 5, 6, 7, 8]
              = weight_ladder [40, 20, 10, 8, 4, 2] (unat (mins_st a))"
    and "hour_st s \<noteq> hour_st a
          \<or> map (HOUR s) [2, 3, 5, 6, 7, 8] = weight_ladder [20, 10, 8, 4, 2] (unat (hour_st s))
         \<Longrightarrow> map (HOUR a) [2, 3, 5, 6, 7, 8] = weight_ladder [20, 10, 8, 4, 2] (unat (hour_st a))"
    and "doty_st s \<noteq> doty_st a
          \<or> map (DOTY s) [2, 3, 5, 6, 7, 8] @ map (DUT1 s) [0, 1, 2, 3]
              = weight_ladder [200, 100, 80, 40, 20, 10, 8, 4, 2] (unat (doty_st s))
         \<Longrightarrow> map (DOTY a) [2, 3, 5, 6, 7, 8] @ map (DUT1 a) [0, 1, 2, 3]
              = weight_ladder [200, 100, 80, 40, 20, 10, 8, 4, 2] (unat (doty_st a))"
    and "YY_st s \<noteq> YY_st a
          \<or> map (YEAR s) [5, 6, 7, 8] @ map (MISC s) [0, 1, 2, 3]
              = weight_ladder [80, 40, 20, 10, 8, 4, 2] (unat (YY_st s))
         \<Longrightarrow> map (YEAR a) [5, 6, 7, 8] @ map (MISC a) [0, 1, 2, 3]
              = weight_ladder [80, 40, 20, 10, 8, 4, 2] (unat (YY_st a))"
    and "is_leap_year_st s \<noteq> is_leap_year_st a \<or> MISC s 5 = is_leap_year_st s
         \<Longrightarrow> MISC a 5 = is_leap_year_st a"
proof -
  assume "mins_st s \<noteq> mins_st a
          \<or> map (MINS s) [1, 2, 3, 5, 6, 7, 8]
              = weight_ladder [40, 20, 10, 8, 4, 2] (unat (mins_st s))"
  then show "map (MINS a) [1, 2, 3, 5, 6, 7, 8]
              = weight_ladder [40, 20, 10, 8, 4, 2] (unat (mins_st a))"
    unfolding a set_time_priv_stored set_time_priv_cells by (rule set_mins_sync)
next
  assume "hour_st s \<noteq> hour_st a
          \<or> map (HOUR s) [2, 3, 5, 6, 7, 8] = weight_ladder [20, 10, 8, 4, 2] (unat (hour_st s))"
  then show "map (HOUR a) [2, 3, 5, 6, 7, 8] = weight_ladder [20, 10, 8, 4, 2] (unat (hour_st a))"
    unfolding a set_time_priv_stored set_time_priv_cells by (rule set_hour_sync)
next
  assume "doty_st s \<noteq> doty_st a
          \<or> map (DOTY s) [2, 3, 5, 6, 7, 8] @ map (DUT1 s) [0, 1, 2, 3]
              = weight_ladder [200, 100, 80, 40, 20, 10, 8, 4, 2] (unat (doty_st s))"
  then show "map (DOTY a) [2, 3, 5, 6, 7, 8] @ map (DUT1 a) [0, 1, 2, 3]
              = weight_ladder [200, 100, 80, 40, 20, 10, 8, 4, 2] (unat (doty_st a))"
    unfolding a set_time_priv_stored set_time_priv_cells by (rule set_doty_sync)
next
  assume "YY_st s \<noteq> YY_st a
          \<or> map (YEAR s) [5, 6, 7, 8] @ map (MISC s) [0, 1, 2, 3]
              = weight_ladder [80, 40, 20, 10, 8, 4, 2] (unat (YY_st s))"
  then show "map (YEAR a) [5, 6, 7, 8] @ map (MISC a) [0, 1, 2, 3]
              = weight_ladder [80, 40, 20, 10, 8, 4, 2] (unat (YY_st a))"
    unfolding a set_time_priv_stored set_time_priv_cells set_misc_low_cells
    by (rule set_year_sync)
next
  assume "is_leap_year_st s \<noteq> is_leap_year_st a \<or> MISC s 5 = is_leap_year_st s"
  then show "MISC a 5 = is_leap_year_st a"
    unfolding a set_time_priv_stored set_time_priv_cells set_misc_low_cells set_year_leap_cell
    by auto
qed

text \<open>
  With the calendar of the specification the day of the year stored by the private
  \<open>set_time\<close> is that of the stored date.
\<close>

lemma days_in_month_le: "days_in_month ly m \<le> 31"
  by (simp add: days_in_month_def)

lemma days_before_month: "sum_list (map (days_in_month ly) xs) \<le> 31 * length xs"
proof (induction xs)
  case Nil
  show ?case by simp
next
  case (Cons x xs)
  with days_in_month_le [of ly x] show ?case by simp
qed

lemma day_of_the_year_u16: "day_of_the_year (unat (d :: u8)) (unat (m :: u8)) ly < 65536"
proof -
  have "unat d < 256" "unat m < 256" using unsigned_less [of d] unsigned_less [of m] by simp_all
  moreover have "sum_list (map (days_in_month ly) [1..<unat m]) \<le> 31 * length [1..<unat m]"
    by (rule days_before_month)
  ultimately show ?thesis by (simp add: day_of_the_year_def)
qed

lemma set_time_priv_doty:
  assumes a: "a = set_time_priv TimeDateTools dst s"
  shows "unat (doty_st a)
     = day_of_the_year (unat (DD_st a)) (unat (MM_st a)) (leap_year (2000 + uint (YY_st a)))"
    and "is_leap_year_st a = leap_year (2000 + uint (YY_st a))"
  unfolding a set_time_priv_stored
  by (simp_all add: unat_of_nat_u16 day_of_the_year_u16)

section \<open>The public setter of the absolute time\<close>

text \<open>
  With the calendar of the specification and a valid time of day and date, the public
  \<open>set_time\<close> stores that time plus one minute, with the carry into hour, day, month and
  year; the stored day of the year and leap-year flag are those of the stored date, and
  the stored daylight-savings code is the argument. Each group of data cells holds the
  weight ladder of the stored field when the stored field has changed or when the cells
  held the ladder of the stored field before, and under no other condition in general.
\<close>

lemma set_time_stores_next_minute:
  assumes "valid_time (unat mi, unat hr, unat dd, unat mo, unat yy)"
  shows "(let a = set_time TimeDateTools mi hr dd mo yy dst s in
     time_nat (get_time a) = plus_one_minute (unat mi, unat hr, unat dd, unat mo, unat yy)
     \<and> unat (doty_st a)
         = day_of_the_year (unat (DD_st a)) (unat (MM_st a)) (leap_year (2000 + uint (YY_st a)))
     \<and> is_leap_year_st a = leap_year (2000 + uint (YY_st a))
     \<and> daylight_savings_st a = dst
     \<and> (mins_st s \<noteq> mins_st a
          \<or> map (MINS s) [1, 2, 3, 5, 6, 7, 8]
              = weight_ladder [40, 20, 10, 8, 4, 2] (unat (mins_st s))
         \<longrightarrow> map (MINS a) [1, 2, 3, 5, 6, 7, 8]
              = weight_ladder [40, 20, 10, 8, 4, 2] (unat (mins_st a)))
     \<and> (hour_st s \<noteq> hour_st a
          \<or> map (HOUR s) [2, 3, 5, 6, 7, 8] = weight_ladder [20, 10, 8, 4, 2] (unat (hour_st s))
         \<longrightarrow> map (HOUR a) [2, 3, 5, 6, 7, 8] = weight_ladder [20, 10, 8, 4, 2] (unat (hour_st a)))
     \<and> (doty_st s \<noteq> doty_st a
          \<or> map (DOTY s) [2, 3, 5, 6, 7, 8] @ map (DUT1 s) [0, 1, 2, 3]
              = weight_ladder [200, 100, 80, 40, 20, 10, 8, 4, 2] (unat (doty_st s))
         \<longrightarrow> map (DOTY a) [2, 3, 5, 6, 7, 8] @ map (DUT1 a) [0, 1, 2, 3]
              = weight_ladder [200, 100, 80, 40, 20, 10, 8, 4, 2] (unat (doty_st a)))
     \<and> (YY_st s \<noteq> YY_st a
          \<or> map (YEAR s) [5, 6, 7, 8] @ map (MISC s) [0, 1, 2, 3]
              = weight_ladder [80, 40, 20, 10, 8, 4, 2] (unat (YY_st s))
         \<longrightarrow> map (YEAR a) [5, 6, 7, 8] @ map (MISC a) [0, 1, 2, 3]
              = weight_ladder [80, 40, 20, 10, 8, 4, 2] (unat (YY_st a)))
     \<and> (is_leap_year_st s \<noteq> is_leap_year_st a \<or> MISC s 5 = is_leap_year_st s
         \<longrightarrow> MISC a 5 = is_leap_year_st a))"
proof -
  obtain mi' hr' d' m' y'
    where p: "plus_one_minute (unat mi, unat hr, unat dd, unat mo, unat yy) = (mi', hr', d', m', y')"
    by (metis prod_cases5)
  note b = plus_one_minute_bounds [OF assms p]
  let ?s0 = "store_temps (t_ss s, of_nat mi', of_nat hr', of_nat d', of_nat m', of_nat y')
          (s\<lparr>t_mm := mi, t_hh := hr, t_DD := dd, t_MM := mo, t_YY := yy\<rparr>)"
  let ?a = "set_time_priv TimeDateTools dst ?s0"
  have e: "set_time TimeDateTools mi hr dd mo yy dst s = ?a"
    by (rule set_time_TimeDateTools [OF assms p])
  have f: "mins_st ?s0 = mins_st s" "hour_st ?s0 = hour_st s" "doty_st ?s0 = doty_st s"
    "YY_st ?s0 = YY_st s" "is_leap_year_st ?s0 = is_leap_year_st s"
    "MINS ?s0 = MINS s" "HOUR ?s0 = HOUR s" "DOTY ?s0 = DOTY s" "DUT1 ?s0 = DUT1 s"
    "YEAR ?s0 = YEAR s" "MISC ?s0 = MISC s"
    by simp_all
  have g: "get_time ?a = (of_nat mi', of_nat hr', of_nat d', of_nat m', of_nat y')"
    by (rule encode_stored(1))
  have t: "time_nat (get_time ?a) = plus_one_minute (unat mi, unat hr, unat dd, unat mo, unat yy)"
    unfolding g p time_nat_def using b by (simp add: unat_of_nat)
  have d: "daylight_savings_st ?a = dst" by (rule encode_stored(4))
  note y = set_time_priv_doty [OF refl, of dst ?s0]
  note c = set_time_priv_sync [OF refl, of ?s0 TimeDateTools dst, unfolded f]
  show ?thesis
    unfolding Let_def e using t y d c by blast
qed

section \<open>Ticks from any counter value\<close>










section \<open>The duty over a bit-second\<close>





section \<open>The bit-second\<close>






section \<open>The frame index under the interrupt routine\<close>









section \<open>The symbol at the marker indices\<close>






section \<open>The public setter on a fresh object\<close>

text \<open>
  Claim C10 (the code departs from it). On the static object as constructed and set up,
  \<open>set_time(59, 23, 31, 12, 24)\<close>, a valid time, stores that time plus one minute:
  00:00 on 1 January 2025, day 1 of a year that is no leap year. The subframes do not
  encode it. The new minute and hour are 0, as are the stored minute and hour of the
  fresh object, so \<open>set_mins\<close> and \<open>set_hour\<close> take them for unchanged and leave the data
  cells of \<open>MINS\<close> and \<open>HOUR\<close> as initialised, all 1, where the ladder of 0 is all 0;
  likewise the leap-year cell and the daylight-savings cells stay 1 for a stored flag
  and code of 0. The day of the year and the year, which differ from the stored 0, are
  encoded.
\<close>

theorem set_time_leaves_stale_cells:
  "(let s = wwvb_setup cfg (construct zeroed);
        a = set_time TimeDateTools 59 23 31 12 24 0 s
    in valid_time (59, 23, 31, 12, 24)
       \<and> plus_one_minute (59, 23, 31, 12, 24) = (0, 0, 1, 1, 25)
       \<and> get_time a = (0, 0, 1, 1, 25) \<and> doty_st a = 1
       \<and> \<not> is_leap_year_st a \<and> daylight_savings_st a = 0
       \<and> map (MINS a) [1, 2, 3, 5, 6, 7, 8] = [True, True, True, True, True, True, True]
       \<and> weight_ladder [40, 20, 10, 8, 4, 2] 0
            = [False, False, False, False, False, False, False]
       \<and> map (HOUR a) [2, 3, 5, 6, 7, 8] = [True, True, True, True, True, True]
       \<and> weight_ladder [20, 10, 8, 4, 2] 0 = [False, False, False, False, False, False]
       \<and> map (MISC a) [5, 7, 8] = [True, True, True]
       \<and> map (DOTY a) [2, 3, 5, 6, 7, 8] @ map (DUT1 a) [0, 1, 2, 3]
            = weight_ladder [200, 100, 80, 40, 20, 10, 8, 4, 2] 1
       \<and> map (YEAR a) [5, 6, 7, 8] @ map (MISC a) [0, 1, 2, 3]
            = weight_ladder [80, 40, 20, 10, 8, 4, 2] 25)"
proof -
  let ?s = "wwvb_setup cfg (construct zeroed)"
  let ?a = "set_time TimeDateTools 59 23 31 12 24 0 ?s"
  have v: "valid_time (unat (59 :: u8), unat (23 :: u8), unat (31 :: u8), unat (12 :: u8),
      unat (24 :: u8))"
    by (simp add: valid_time_def days_in_month_def)
  have p: "plus_one_minute (unat (59 :: u8), unat (23 :: u8), unat (31 :: u8), unat (12 :: u8),
      unat (24 :: u8)) = (0, 0, 1, 1, 25)"
    by (simp add: plus_one_minute_def days_in_month_def leap_year_def)
  have v': "valid_time (59, 23, 31, 12, 24)" using v by simp
  have p': "plus_one_minute (59, 23, 31, 12, 24) = (0, 0, 1, 1, 25)" using p by simp
  have "get_time ?s = get_time (construct zeroed)" "doty_st ?s = doty_st (construct zeroed)"
    "is_leap_year_st ?s = is_leap_year_st (construct zeroed)"
    "daylight_savings_st ?s = daylight_savings_st (construct zeroed)"
    by (simp_all add: setup_thresholds)
  then have z: "mins_st ?s = 0" "hour_st ?s = 0" "YY_st ?s = 0" "doty_st ?s = 0"
    "\<not> is_leap_year_st ?s" "daylight_savings_st ?s = 0"
    by (simp_all add: get_time_def construct_def zeroed_def)
  have c: "map (MINS ?s) [1, 2, 3, 5, 6, 7, 8] = [True, True, True, True, True, True, True]"
    "map (HOUR ?s) [2, 3, 5, 6, 7, 8] = [True, True, True, True, True, True]"
    "map (MISC ?s) [5, 7, 8] = [True, True, True]"
    by (simp_all add: setup_thresholds construct_def cells_def)
  have e: "?a = set_time_priv TimeDateTools 0
       (store_temps (t_ss ?s, of_nat 0, of_nat 0, of_nat 1, of_nat 1, of_nat 25)
          (?s\<lparr>t_mm := 59, t_hh := 23, t_DD := 31, t_MM := 12, t_YY := 24\<rparr>))"
    by (rule set_time_TimeDateTools [OF v p])
  have g: "get_time ?a = (0, 0, 1, 1, 25)" unfolding e encode_stored by simp
  have d: "doty_st ?a = 1"
    unfolding e encode_stored by (simp add: day_of_the_year_def)
  have ly: "\<not> is_leap_year_st ?a" unfolding e encode_stored by (simp add: leap_year_def)
  have ds: "daylight_savings_st ?a = 0" unfolding e encode_stored by simp
  have m: "MINS ?a = MINS ?s" unfolding e encode_stored by (simp add: z)
  have h: "HOUR ?a = HOUR ?s" unfolding e encode_stored by (simp add: z)
  have mi: "MISC ?a 5 = MISC ?s 5" "MISC ?a 7 = MISC ?s 7" "MISC ?a 8 = MISC ?s 8"
    unfolding e encode_stored
    by (simp_all add: z leap_year_def encode_year_MISC_def Let_def)
  note S = set_time_stores_next_minute [OF v, of 0 ?s, unfolded Let_def]
  have y: "YY_st ?a = 25" using g by (simp add: get_time_def)
  from S have "doty_st ?s \<noteq> doty_st ?a
          \<or> map (DOTY ?s) [2, 3, 5, 6, 7, 8] @ map (DUT1 ?s) [0, 1, 2, 3]
              = weight_ladder [200, 100, 80, 40, 20, 10, 8, 4, 2] (unat (doty_st ?s))
         \<longrightarrow> map (DOTY ?a) [2, 3, 5, 6, 7, 8] @ map (DUT1 ?a) [0, 1, 2, 3]
              = weight_ladder [200, 100, 80, 40, 20, 10, 8, 4, 2] (unat (doty_st ?a))"
    by blast
  then have dl: "map (DOTY ?a) [2, 3, 5, 6, 7, 8] @ map (DUT1 ?a) [0, 1, 2, 3]
              = weight_ladder [200, 100, 80, 40, 20, 10, 8, 4, 2] 1"
    unfolding d z by simp
  from S have "YY_st ?s \<noteq> YY_st ?a
          \<or> map (YEAR ?s) [5, 6, 7, 8] @ map (MISC ?s) [0, 1, 2, 3]
              = weight_ladder [80, 40, 20, 10, 8, 4, 2] (unat (YY_st ?s))
         \<longrightarrow> map (YEAR ?a) [5, 6, 7, 8] @ map (MISC ?a) [0, 1, 2, 3]
              = weight_ladder [80, 40, 20, 10, 8, 4, 2] (unat (YY_st ?a))"
    by blast
  then have yl: "map (YEAR ?a) [5, 6, 7, 8] @ map (MISC ?a) [0, 1, 2, 3]
              = weight_ladder [80, 40, 20, 10, 8, 4, 2] 25"
    unfolding y z by simp
  have c1: "map (MINS ?a) [1, 2, 3, 5, 6, 7, 8] = [True, True, True, True, True, True, True]"
    unfolding m by (rule c(1))
  have c2: "map (HOUR ?a) [2, 3, 5, 6, 7, 8] = [True, True, True, True, True, True]"
    unfolding h by (rule c(2))
  have c3: "map (MISC ?a) [5, 7, 8] = [True, True, True]"
    using c(3) by (simp add: mi)
  have w1: "weight_ladder [40, 20, 10, 8, 4, 2] 0
            = [False, False, False, False, False, False, False]"
    by simp
  have w2: "weight_ladder [20, 10, 8, 4, 2] 0 = [False, False, False, False, False, False]"
    by simp
  show ?thesis
    unfolding Let_def by (intro conjI v' p' g d ly ds c1 w1 c2 w2 c3 dl yl)
qed

section \<open>The minute rollover\<close>

lemma set_lowTime_stored [simp]:
  "mins_st (set_lowTime s) = mins_st s" "hour_st (set_lowTime s) = hour_st s"
  "DD_st (set_lowTime s) = DD_st s" "MM_st (set_lowTime s) = MM_st s"
  "YY_st (set_lowTime s) = YY_st s" "is_leap_year_st (set_lowTime s) = is_leap_year_st s"
  "daylight_savings_st (set_lowTime s) = daylight_savings_st s"
  by (simp_all add: set_lowTime_def Let_def)












end
